theory Spec2Isabelle
  imports Complex_Main "HOL-Library.Word" "HOL-Library.AList"
begin

section \<open>Qt values used by vmmanager.cpp\<close>

text \<open>
  The program is written against Qt. The Qt types it touches are modelled by what the
  program can observe of them: a \<open>QString\<close> and a \<open>QByteArray\<close> are a \<open>string\<close>, an
  \<open>int\<close> is a 32-bit signed word, a \<open>QJsonValue\<close> is a datatype with one constructor per
  JSON type, a \<open>QJsonObject\<close> and a \<open>QVariantMap\<close> are maps from keys to values.
\<close>

datatype QJsonValue =
    JNull
  | JBool bool
  | JDouble real
  | JString string
  | JArray "QJsonValue list"
  | JObject "string \<Rightarrow> QJsonValue option"
  | JUndefined

type_synonym QJsonObject = "string \<Rightarrow> QJsonValue option"

datatype QJsonDocument =
    EmptyDocument
  | ArrayDocument "QJsonValue list"
  | ObjectDocument QJsonObject

text \<open>\<open>QJsonValue::toString()\<close> and \<open>toBool()\<close>: the value when the type fits, else the default.\<close>

fun toString :: "QJsonValue \<Rightarrow> string" where
  "toString (JString s) = s"
| "toString _ = []"

fun toBool :: "QJsonValue \<Rightarrow> bool" where
  "toBool (JBool b) = b"
| "toBool _ = False"

text \<open>\<open>QJsonObject::contains\<close>, \<open>value\<close> (\<open>Undefined\<close> for a missing key) and \<open>insert\<close>.\<close>

definition contains :: "QJsonObject \<Rightarrow> string \<Rightarrow> bool" where
  "contains obj k = (obj k \<noteq> None)"

definition jvalue :: "QJsonObject \<Rightarrow> string \<Rightarrow> QJsonValue" where
  "jvalue obj k = (case obj k of None \<Rightarrow> JUndefined | Some v \<Rightarrow> v)"

definition jinsert :: "string \<Rightarrow> QJsonValue \<Rightarrow> QJsonObject \<Rightarrow> QJsonObject" where
  "jinsert k v obj = obj(k \<mapsto> v)"

datatype QVariant = Invalid | VBool bool | VString string

type_synonym QVariantMap = "string \<Rightarrow> QVariant option"

text \<open>\<open>QVariantMap::value\<close>: a default-constructed (invalid) variant for a missing key.\<close>

definition vvalue :: "QVariantMap \<Rightarrow> string \<Rightarrow> QVariant" where
  "vvalue vm k = (case vm k of None \<Rightarrow> Invalid | Some v \<Rightarrow> v)"

subsection \<open>Decimal text of integers\<close>

definition digit_char :: "nat \<Rightarrow> char" where
  "digit_char d = char_of (48 + d)"

definition is_digit :: "char \<Rightarrow> bool" where
  "is_digit c = (48 \<le> (of_char c :: nat) \<and> (of_char c :: nat) \<le> 57)"

definition digit_val :: "char \<Rightarrow> nat" where
  "digit_val c = (of_char c :: nat) - 48"

function show_nat :: "nat \<Rightarrow> string" where
  "show_nat n = (if n < 10 then [digit_char n] else show_nat (n div 10) @ [digit_char (n mod 10)])"
  by pat_completeness auto
termination
  by (relation "measure id") auto

declare show_nat.simps [simp del]

text \<open>\<open>QString::number(int)\<close>: base 10, a minus sign for a negative number.\<close>

definition QString_number :: "32 word \<Rightarrow> string" where
  "QString_number n =
     (if sint n < 0 then CHR ''-'' # show_nat (nat (- sint n)) else show_nat (nat (sint n)))"

definition parse_digits :: "string \<Rightarrow> nat option" where
  "parse_digits s =
     (if s \<noteq> [] \<and> list_all is_digit s
      then Some (foldl (\<lambda>a c. 10 * a + digit_val c) 0 s) else None)"

definition is_space :: "char \<Rightarrow> bool" where
  "is_space c = (c \<in> set [CHR '' '', CHR 0x09, CHR 0x0A, CHR 0x0B, CHR 0x0C, CHR 0x0D])"

definition trimmed :: "string \<Rightarrow> string" where
  "trimmed s = rev (dropWhile is_space (rev (dropWhile is_space s)))"

text \<open>
  \<open>QString::toLongLong\<close> (base 10): surrounding white space is ignored, a sign is
  accepted, and a text that is not a number, or a number outside 64 bits, is a failure.
\<close>

definition QString_toLongLong :: "string \<Rightarrow> int option" where
  "QString_toLongLong s =
     (let t = trimmed s;
          r = (case t of
                 [] \<Rightarrow> None
               | c # cs \<Rightarrow>
                   if c = CHR ''-'' then map_option (\<lambda>n. - int n) (parse_digits cs)
                   else if c = CHR ''+'' then map_option int (parse_digits cs)
                   else map_option int (parse_digits t))
      in case r of
           None \<Rightarrow> None
         | Some v \<Rightarrow> if - (2 ^ 63) \<le> v \<and> v < 2 ^ 63 then Some v else None)"

definition lower_char :: "char \<Rightarrow> char" where
  "lower_char c =
     (if 65 \<le> (of_char c :: nat) \<and> (of_char c :: nat) \<le> 90
      then char_of ((of_char c :: nat) + 32) else c)"

text \<open>
  \<open>QVariant::toString\<close>, \<open>toBool\<close> and \<open>toInt\<close> for the variants the program stores. A
  string converts to \<open>int\<close> through \<open>toLongLong\<close>, narrowed to 32 bits; a failed
  conversion gives 0.
\<close>

fun vtoString :: "QVariant \<Rightarrow> string" where
  "vtoString (VString s) = s"
| "vtoString (VBool b) = (if b then ''true'' else ''false'')"
| "vtoString Invalid = []"

fun vtoBool :: "QVariant \<Rightarrow> bool" where
  "vtoBool (VBool b) = b"
| "vtoBool (VString s) =
     (\<not> (s = [] \<or> map lower_char s = ''0'' \<or> map lower_char s = ''false''))"
| "vtoBool Invalid = False"

fun vtoInt :: "QVariant \<Rightarrow> 32 word" where
  "vtoInt (VString s) = (case QString_toLongLong s of None \<Rightarrow> 0 | Some v \<Rightarrow> word_of_int v)"
| "vtoInt (VBool b) = (if b then 1 else 0)"
| "vtoInt Invalid = 0"

section \<open>The machine and the JSON keys\<close>

text \<open>
  The class \<open>Machine\<close> is declared in vmmanager.h; its fields are the ones
  vmmanager.cpp reads and writes. The field \<open>dvd\<close> is called \<open>dvdImage\<close> here, since
  \<open>dvd\<close> is the divisibility relation of HOL.
\<close>

record Machine =
  storage :: string
  name :: string
  arch :: string
  cores :: "32 word"
  mem :: "32 word"
  hdd :: string
  dvdImage :: string
  flash1 :: string
  flash2 :: string
  useVirglrenderer :: bool
  enableFileSharing :: bool
  externalWindowOnly :: bool
  hddSize :: "32 word"

definition KEY_STORAGE :: string where "KEY_STORAGE = ''storage''"
definition KEY_DESC :: string where "KEY_DESC = ''description''"
definition KEY_ARCH :: string where "KEY_ARCH = ''arch''"
definition KEY_CORES :: string where "KEY_CORES = ''cores''"
definition KEY_MEM :: string where "KEY_MEM = ''mem''"
definition KEY_DVD :: string where "KEY_DVD = ''dvd''"
definition KEY_HDD :: string where "KEY_HDD = ''hdd''"
definition KEY_FLASH1 :: string where "KEY_FLASH1 = ''flash1''"
definition KEY_FLASH2 :: string where "KEY_FLASH2 = ''flash2''"
definition KEY_ENABLEFILESHARING :: string where "KEY_ENABLEFILESHARING = ''enableFileSharing''"
definition KEY_VIRGLRENDERER :: string where "KEY_VIRGLRENDERER = ''useVirglrenderer''"
definition KEY_EXTERNAL_WINDOW_ONLY :: string where
  "KEY_EXTERNAL_WINDOW_ONLY = ''externalWindowOnly''"

lemmas KEY_defs =
  KEY_STORAGE_def KEY_DESC_def KEY_ARCH_def KEY_CORES_def KEY_MEM_def KEY_DVD_def
  KEY_HDD_def KEY_FLASH1_def KEY_FLASH2_def KEY_ENABLEFILESHARING_def
  KEY_VIRGLRENDERER_def KEY_EXTERNAL_WINDOW_ONLY_def

definition VALID_ARCHES :: "string list" where
  "VALID_ARCHES = [''x86_64'', ''aarch64'']"

text \<open>
  \<open>VMManager::fromQml\<close>. The first argument is the object \<open>new Machine()\<close> gives; the
  twelve assignments follow.
\<close>

definition fromQml :: "Machine \<Rightarrow> QVariantMap \<Rightarrow> Machine" where
  "fromQml new_Machine vm = new_Machine
     \<lparr> storage := vtoString (vvalue vm KEY_STORAGE),
       name := vtoString (vvalue vm KEY_DESC),
       arch := vtoString (vvalue vm KEY_ARCH),
       cores := vtoInt (vvalue vm KEY_CORES),
       mem := vtoInt (vvalue vm KEY_MEM),
       hdd := vtoString (vvalue vm KEY_HDD),
       dvdImage := vtoString (vvalue vm KEY_DVD),
       flash1 := vtoString (vvalue vm KEY_FLASH1),
       flash2 := vtoString (vvalue vm KEY_FLASH2),
       useVirglrenderer := vtoBool (vvalue vm KEY_VIRGLRENDERER),
       enableFileSharing := vtoBool (vvalue vm KEY_ENABLEFILESHARING),
       externalWindowOnly := vtoBool (vvalue vm KEY_EXTERNAL_WINDOW_ONLY) \<rparr>"

text \<open>
  \<open>VMManager::machineToJSON\<close>: the object it builds, one \<open>insert\<close> after the other. The
  bytes are what \<open>QJsonDocument::toJson\<close> makes of that object (see \<open>machineToJSON\<close> below).
\<close>

definition machineToJSON_rootObject :: "Machine \<Rightarrow> QJsonObject" where
  "machineToJSON_rootObject machine =
     (jinsert KEY_EXTERNAL_WINDOW_ONLY (JBool (externalWindowOnly machine))
     (jinsert KEY_ENABLEFILESHARING (JBool (enableFileSharing machine))
     (jinsert KEY_VIRGLRENDERER (JBool (useVirglrenderer machine))
     (jinsert KEY_FLASH2 (JString (toString (JString (flash2 machine))))
     (jinsert KEY_FLASH1 (JString (toString (JString (flash1 machine))))
     (jinsert KEY_HDD (JString (toString (JString (hdd machine))))
     (jinsert KEY_DVD (JString (toString (JString (dvdImage machine))))
     (jinsert KEY_MEM (JString (toString (JString (QString_number (mem machine)))))
     (jinsert KEY_CORES (JString (toString (JString (QString_number (cores machine)))))
     (jinsert KEY_ARCH (JString (toString (JString (arch machine))))
     (jinsert KEY_DESC (JString (toString (JString (name machine))))
      Map.empty)))))))))))"

section \<open>The platform and the file system\<close>

text \<open>
  What the program asks of Qt and of the host is a parameter of the model: the JSON
  writer and parser, the two standard directories, the CPU architecture, the identifier
  \<open>QUuid::createUuid\<close> hands out, and the run of the external \<open>qemu-img\<close>: its exit code,
  its standard error, and the bytes it left in the image file (if any).
\<close>

record QProcess =
  exitCode :: int
  readAllStandardError :: string
  written :: "string option"

record qt =
  toJson :: "QJsonDocument \<Rightarrow> string"
  fromJson :: "string \<Rightarrow> string + QJsonDocument"
  applicationDirPath :: string
  writableLocation :: string
  currentCpuArchitecture :: string
  createUuid :: string
  start :: "string \<Rightarrow> string list \<Rightarrow> QProcess"

datatype QtMsgType = QtDebugMsg | QtWarningMsg

text \<open>
  The file system: the files (and device nodes) with their bytes, in the order a directory
  scan meets them, the directories, what the current user may read, write (or create) and
  remove, and the messages printed so far.
\<close>

record world =
  files :: "(string \<times> string) list"
  dirs :: "string list"
  readable :: "string \<Rightarrow> bool"
  writable :: "string \<Rightarrow> bool"
  removable :: "string \<Rightarrow> bool"
  messages :: "(QtMsgType \<times> string) list"

definition qDebug :: "string \<Rightarrow> world \<Rightarrow> world" where
  "qDebug msg w = w\<lparr>messages := messages w @ [(QtDebugMsg, msg)]\<rparr>"

definition qWarning :: "string \<Rightarrow> world \<Rightarrow> world" where
  "qWarning msg w = w\<lparr>messages := messages w @ [(QtWarningMsg, msg)]\<rparr>"

definition QFile_exists :: "world \<Rightarrow> string \<Rightarrow> bool" where
  "QFile_exists w p = (map_of (files w) p \<noteq> None)"

definition readAll :: "world \<Rightarrow> string \<Rightarrow> string" where
  "readAll w p = (case map_of (files w) p of None \<Rightarrow> [] | Some bytes \<Rightarrow> bytes)"

text \<open>\<open>QFile::remove\<close>: false when the file is not there or may not be removed.\<close>

definition QFile_remove :: "string \<Rightarrow> world \<Rightarrow> bool \<times> world" where
  "QFile_remove p w =
     (if QFile_exists w p \<and> removable w p
      then (True, w\<lparr>files := AList.delete p (files w)\<rparr>)
      else (False, w))"

text \<open>
  \<open>QFile::copy\<close>: false when the source is missing or unreadable, when the target may not
  be written, and when the target exists already (Qt does not overwrite).
\<close>

definition QFile_copy :: "string \<Rightarrow> string \<Rightarrow> world \<Rightarrow> bool \<times> world" where
  "QFile_copy src dst w =
     (case map_of (files w) src of
        None \<Rightarrow> (False, w)
      | Some bytes \<Rightarrow>
          if readable w src \<and> writable w dst \<and> map_of (files w) dst = None
          then (True, w\<lparr>files := files w @ [(dst, bytes)]\<rparr>)
          else (False, w))"

text \<open>
  \<open>QFile::write\<close> at position 0 of a file opened \<open>ReadWrite\<close>: with \<open>Truncate\<close> the bytes
  replace the content, without it they overwrite its beginning.
\<close>

definition QFile_write :: "bool \<Rightarrow> string \<Rightarrow> string \<Rightarrow> world \<Rightarrow> world" where
  "QFile_write trunc p bytes w =
     w\<lparr>files := AList.update p
         (if trunc then bytes
          else (case map_of (files w) p of
                  None \<Rightarrow> bytes
                | Some old \<Rightarrow> bytes @ drop (length bytes) old))
         (files w)\<rparr>"

definition QDir_exists :: "world \<Rightarrow> string \<Rightarrow> bool" where
  "QDir_exists w p = (p \<in> set (dirs w))"

definition QDir_mkpath :: "string \<Rightarrow> world \<Rightarrow> bool \<times> world" where
  "QDir_mkpath p w =
     (if writable w p then (True, w\<lparr>dirs := dirs w @ [p]\<rparr>) else (False, w))"

section \<open>The record codec\<close>

text \<open>What \<open>listEntryForJSON\<close> throws; \<open>Missing k\<close> is the message \<open>Missing 'k'\<close>.\<close>

datatype exn =
    File_doesnt_exist
  | Couldnt_open_file
  | Json_error string
  | Invalid_VM_information
  | Missing string
  | Invalid_architecture

text \<open>
  \<open>VMManager::listEntryForJSON\<close>, from \<open>QJsonObject rootObject = jsonDoc.object()\<close> on. The
  statement \<open>return ret\<close> after the test for \<open>externalWindowOnly\<close> is not guarded by the
  \<open>if\<close>, so the \<open>insert\<close> of \<open>false\<close> below it is never reached.
\<close>

definition listEntryForObject :: "QJsonObject \<Rightarrow> QVariantMap \<Rightarrow> exn + QVariantMap" where
  "listEntryForObject rootObject ret0 =
     (if \<not> contains rootObject KEY_DESC then Inl (Missing ''description'')
      else let ret1 = ret0(''description'' \<mapsto> VString (toString (jvalue rootObject KEY_DESC))) in
      if \<not> contains rootObject KEY_ARCH then Inl (Missing ''arch'')
      else let arch = toString (jvalue rootObject KEY_ARCH) in
      if arch \<notin> set VALID_ARCHES then Inl Invalid_architecture
      else let ret2 = ret1(''arch'' \<mapsto> VString arch) in
      if \<not> contains rootObject KEY_CORES then Inl (Missing ''cores'')
      else let ret3 = ret2(''cores'' \<mapsto> VString (toString (jvalue rootObject KEY_CORES))) in
      if \<not> contains rootObject KEY_MEM then Inl (Missing ''mem'')
      else let ret4 = ret3(''mem'' \<mapsto> VString (toString (jvalue rootObject KEY_MEM))) in
      if \<not> contains rootObject KEY_HDD then Inl (Missing ''hdd'')
      else let ret5 = ret4(''hdd'' \<mapsto> VString (toString (jvalue rootObject KEY_HDD))) in
      if \<not> contains rootObject KEY_DVD then Inl (Missing ''dvd'')
      else let ret6 = ret5(''dvd'' \<mapsto> VString (toString (jvalue rootObject KEY_DVD))) in
      if \<not> contains rootObject KEY_FLASH1 then Inl (Missing ''flash1'')
      else let ret7 = ret6(''flash1'' \<mapsto> VString (toString (jvalue rootObject KEY_FLASH1))) in
      if \<not> contains rootObject KEY_FLASH2 then Inl (Missing ''flash2'')
      else let ret8 = ret7(''flash2'' \<mapsto> VString (toString (jvalue rootObject KEY_FLASH2)));
               ret9 = (if contains rootObject KEY_VIRGLRENDERER
                       then ret8(KEY_VIRGLRENDERER \<mapsto>
                              VBool (toBool (jvalue rootObject KEY_VIRGLRENDERER)))
                       else ret8(KEY_VIRGLRENDERER \<mapsto> VBool False));
               ret10 = (if contains rootObject KEY_ENABLEFILESHARING
                        then ret9(KEY_ENABLEFILESHARING \<mapsto>
                               VBool (toBool (jvalue rootObject KEY_ENABLEFILESHARING)))
                        else ret9(KEY_ENABLEFILESHARING \<mapsto> VBool False));
               ret11 = (if contains rootObject KEY_EXTERNAL_WINDOW_ONLY
                        then ret10(KEY_EXTERNAL_WINDOW_ONLY \<mapsto>
                               VBool (toBool (jvalue rootObject KEY_EXTERNAL_WINDOW_ONLY)))
                        else ret10)
           in Inr ret11)"

text \<open>\<open>VMManager::listEntryForJSON\<close>: the file is opened, read and parsed first.\<close>

definition listEntryForJSON :: "qt \<Rightarrow> world \<Rightarrow> string \<Rightarrow> string \<Rightarrow> exn + QVariantMap" where
  "listEntryForJSON q w path storage0 =
     (let ret = [''path'' \<mapsto> VString path, KEY_STORAGE \<mapsto> VString storage0] in
      if \<not> QFile_exists w path then Inl File_doesnt_exist
      else if \<not> readable w path then Inl Couldnt_open_file
      else (case fromJson q (readAll w path) of
              Inl errorString \<Rightarrow> Inl (Json_error errorString)
            | Inr jsonDoc \<Rightarrow>
                (case jsonDoc of
                   ObjectDocument rootObject \<Rightarrow> listEntryForObject rootObject ret
                 | _ \<Rightarrow> Inl Invalid_VM_information)))"

definition machineToJSON :: "qt \<Rightarrow> Machine \<Rightarrow> string" where
  "machineToJSON q machine = toJson q (ObjectDocument (machineToJSON_rootObject machine))"

section \<open>Firmware provisioning\<close>

text \<open>
  \<open>VMManager::resetEFIFirmware\<close>: the result, the machine (with \<open>flash1\<close> set on success)
  and the file system after the call.
\<close>

definition resetEFIFirmware :: "qt \<Rightarrow> Machine \<Rightarrow> world \<Rightarrow> bool \<times> Machine \<times> world" where
  "resetEFIFirmware q machine w =
     (let pwd = applicationDirPath q;
          efiFw = pwd @ ''/efi/'' @ arch machine @ ''/code.fd'';
          efiFwTarget = storage machine @ ''/efi.fd'';
          w1 = (if QFile_exists w efiFwTarget
                then (let w' = qDebug (''Attempting to remove existing target '' @ efiFwTarget) w;
                          removed = QFile_remove efiFwTarget w'
                      in if \<not> fst removed
                         then qWarning (''Failed to remove existing target '' @ efiFwTarget)
                                (snd removed)
                         else snd removed)
                else w);
          copied = QFile_copy efiFw efiFwTarget w1
      in if \<not> fst copied
         then (False, machine,
               qWarning (''Failed to copy '' @ efiFw @ '' EFI firmware to target '' @ efiFwTarget)
                 (snd copied))
         else (True, machine\<lparr>flash1 := efiFwTarget\<rparr>, snd copied))"

text \<open>\<open>VMManager::resetEFINVRAM\<close>: the same for the NVRAM template.\<close>

definition resetEFINVRAM :: "qt \<Rightarrow> Machine \<Rightarrow> world \<Rightarrow> bool \<times> Machine \<times> world" where
  "resetEFINVRAM q machine w =
     (let pwd = applicationDirPath q;
          varsArch = (if arch machine = ''aarch64'' then ''arm'' else ''i386'');
          efiVars = pwd @ ''/share/qemu/edk2-'' @ varsArch @ ''-vars.fd'';
          efiVarsTarget = storage machine @ ''/efi_nvram.fd'';
          w1 = (if QFile_exists w efiVarsTarget
                then (let w' = qDebug (''Attempting to remove existing target '' @ efiVarsTarget) w;
                          removed = QFile_remove efiVarsTarget w'
                      in if \<not> fst removed
                         then qWarning (''Failed to remove existing target '' @ efiVarsTarget)
                                (snd removed)
                         else snd removed)
                else w);
          copied = QFile_copy efiVars efiVarsTarget w1
      in if \<not> fst copied
         then (False, machine,
               qWarning (''Failed to copy '' @ efiVars @ '' EFI NVRAM to target '' @ efiVarsTarget)
                 (snd copied))
         else (True, machine\<lparr>flash2 := efiVarsTarget\<rparr>, snd copied))"

section \<open>Creating and editing a machine\<close>

text \<open>
  \<open>VMManager::createVM\<close>, in two parts. The first part is the body up to the HDD image:
  the directory is made (the program does not look at the result of \<open>mkpath\<close>) and
  \<open>qemu-img\<close> is run; the run leaves its bytes (if it wrote any) in the image file, whatever
  its exit code. It returns false where the program returns false there.
\<close>

definition createVM_disk :: "qt \<Rightarrow> Machine \<Rightarrow> world \<Rightarrow> bool \<times> Machine \<times> world" where
  "createVM_disk q machine0 w =
     (let vmDirPath = writableLocation q @ ''/'' @ createUuid q;
          pwd = applicationDirPath q;
          machine1 = machine0\<lparr>storage := vmDirPath\<rparr>;
          w1 = (if \<not> QDir_exists w vmDirPath then snd (QDir_mkpath vmDirPath w) else w);
          qemuImgBin = pwd @ ''/bin/qemu-img'';
          hddPath = vmDirPath @ ''/hdd.qcow2'';
          qemuImgArgs = [''create'', ''-f'', ''qcow2'', hddPath,
                         QString_number (hddSize machine1) @ ''G''];
          w2 = qDebug (''Creating qcow2 image with arguments: '' @ concat qemuImgArgs) w1;
          qemuImg = start q qemuImgBin qemuImgArgs;
          w3 = (case written qemuImg of
                  None \<Rightarrow> w2
                | Some bytes \<Rightarrow> w2\<lparr>files := AList.update hddPath bytes (files w2)\<rparr>)
      in if exitCode qemuImg \<noteq> 0
         then (False, machine1,
               qWarning (''qemu-img failed: '' @ readAllStandardError qemuImg) w3)
         else (True, machine1\<lparr>hdd := hddPath\<rparr>, w3))"

text \<open>
  The whole of \<open>createVM\<close>. The argument is a pointer, so \<open>None\<close> is \<open>nullptr\<close>. The
  metadata file is opened \<open>ReadWrite\<close> without \<open>Truncate\<close>.
\<close>

definition createVM :: "qt \<Rightarrow> Machine option \<Rightarrow> world \<Rightarrow> bool \<times> Machine option \<times> world" where
  "createVM q mp w =
     (case mp of
        None \<Rightarrow> (False, None, qWarning ''nullptr machine provided'' w)
      | Some machine0 \<Rightarrow>
          let vmDirPath = writableLocation q @ ''/'' @ createUuid q;
              disk = createVM_disk q machine0 w
          in if \<not> fst disk then (False, Some (fst (snd disk)), snd (snd disk))
             else
               let fw = resetEFIFirmware q (fst (snd disk)) (snd (snd disk))
               in if \<not> fst fw then (False, Some (fst (snd fw)), snd (snd fw))
                  else
                    let nv = resetEFINVRAM q (fst (snd fw)) (snd (snd fw));
                        machine4 = fst (snd nv);
                        w5 = snd (snd nv)
                    in if \<not> fst nv then (False, Some machine4, w5)
                       else
                         let jsonFilePath = vmDirPath @ ''/info.json''
                         in if \<not> writable w5 jsonFilePath
                            then (False, Some machine4,
                                  qWarning ''Failed to open JSON file for writing'' w5)
                            else (True, Some machine4,
                                  QFile_write False jsonFilePath (machineToJSON q machine4) w5))"

text \<open>\<open>VMManager::editVM\<close>: the file is opened with \<open>Truncate\<close>.\<close>

definition editVM :: "qt \<Rightarrow> Machine option \<Rightarrow> world \<Rightarrow> bool \<times> world" where
  "editVM q mp w =
     (case mp of
        None \<Rightarrow> (False, qWarning ''nullptr machine provided'' w)
      | Some machine \<Rightarrow>
          let jsonFilePath = storage machine @ ''/info.json''
          in if \<not> writable w jsonFilePath
             then (False, qWarning ''Failed to open JSON file for writing'' w)
             else (True, QFile_write True jsonFilePath (machineToJSON q machine) w))"

section \<open>Host capability\<close>

text \<open>\<open>VMManager::canVirtualize\<close>, with the messages it prints.\<close>

definition canVirtualize :: "qt \<Rightarrow> world \<Rightarrow> string \<Rightarrow> bool \<times> world" where
  "canVirtualize q w arch0 =
     (let currentCpuType = currentCpuArchitecture q;
          machineType = (if currentCpuType = ''arm64'' then ''aarch64'' else currentCpuType);
          w1 = qDebug (''uname '' @ machineType @ '' vs arch '' @ arch0) w;
          kvmPath = ''/dev/kvm''
      in if \<not> QFile_exists w1 kvmPath
         then (False, qWarning ''KVM is not enabled on this kernel or device.'' w1)
         else if \<not> readable w1 kvmPath
         then (False, qWarning ''/dev/kvm is not readable.'' w1)
         else if \<not> writable w1 kvmPath
         then (False, qWarning ''/dev/kvm is not writable.'' w1)
         else (machineType = arch0, w1))"

section \<open>Scanning the storage root\<close>

record VMManager =
  m_vms :: "QVariantMap list"
  m_refreshing :: bool
  emitted :: "string list"

definition setRefreshing :: "bool \<Rightarrow> VMManager \<Rightarrow> VMManager" where
  "setRefreshing v this =
     (if m_refreshing this = v then this
      else this\<lparr>m_refreshing := v, emitted := emitted this @ [''refreshingChanged'']\<rparr>)"

definition fileName :: "string \<Rightarrow> string" where
  "fileName p = rev (takeWhile (\<lambda>c. c \<noteq> CHR ''/'') (rev p))"

text \<open>\<open>QFileInfo(p).canonicalPath()\<close>: the directory of the file (links are not modelled).\<close>

definition canonicalPath :: "string \<Rightarrow> string" where
  "canonicalPath p = rev (drop 1 (dropWhile (\<lambda>c. c \<noteq> CHR ''/'') (rev p)))"

text \<open>
  \<open>QDirIterator(root, {"info.json"}, QDir::Files, Subdirectories)\<close>: the files below the
  root whose name matches the filter; Qt matches names without regard to case unless told
  otherwise.
\<close>

definition QDirIterator :: "world \<Rightarrow> string \<Rightarrow> string \<Rightarrow> string list" where
  "QDirIterator w rootPath nameFilter =
     filter (\<lambda>p. take (Suc (length rootPath)) p = rootPath @ ''/''
                \<and> map lower_char (fileName p) = map lower_char nameFilter)
            (map fst (files w))"

text \<open>The loop of \<open>VMManager::refreshVMs\<close>: an entry that throws is skipped.\<close>

fun refreshVMs_loop :: "qt \<Rightarrow> world \<Rightarrow> string list \<Rightarrow> QVariantMap list \<Rightarrow> QVariantMap list" where
  "refreshVMs_loop q w [] vms = vms"
| "refreshVMs_loop q w (filePath # dirIt) vms =
     (case listEntryForJSON q w filePath (canonicalPath filePath) of
        Inl e \<Rightarrow> refreshVMs_loop q w dirIt vms
      | Inr vm \<Rightarrow> refreshVMs_loop q w dirIt (vms @ [vm]))"

definition refreshVMs :: "qt \<Rightarrow> world \<Rightarrow> VMManager \<Rightarrow> VMManager" where
  "refreshVMs q w this =
     (let dirIt = QDirIterator w (writableLocation q) ''info.json'';
          this1 = setRefreshing True this;
          vms = refreshVMs_loop q w dirIt [];
          this2 = this1\<lparr>m_vms := vms, emitted := emitted this1 @ [''vmsChanged'']\<rparr>
      in setRefreshing False this2)"

section \<open>A worked example\<close>

text \<open>
  One platform and one storage root, used to run the operations on concrete inputs. The
  writer and the parser of the example know the texts of the example only.
\<close>

definition example_machine :: Machine where
  "example_machine =
     \<lparr> storage = ''/data/vm1'', name = ''Debian'', arch = ''x86_64'', cores = 2, mem = 2048,
       hdd = ''/data/vm1/hdd.qcow2'', dvdImage = ''/iso/debian.iso'',
       flash1 = ''/data/vm1/efi.fd'', flash2 = ''/data/vm1/efi_nvram.fd'',
       useVirglrenderer = False, enableFileSharing = False, externalWindowOnly = False,
       hddSize = 8 \<rparr>"

definition example_new_Machine :: Machine where
  "example_new_Machine =
     \<lparr> storage = [], name = [], arch = [], cores = 0, mem = 0, hdd = [], dvdImage = [],
       flash1 = [], flash2 = [], useVirglrenderer = False, enableFileSharing = False,
       externalWindowOnly = False, hddSize = 0 \<rparr>"

definition example_text_vm1 :: string where
  \<open>example_text_vm1 =
     ''{"arch":"x86_64","cores":"2","description":"Debian","dvd":"/iso/debian.iso",'' @
     ''"enableFileSharing":false,"externalWindowOnly":false,"flash1":"/data/vm1/efi.fd",'' @
     ''"flash2":"/data/vm1/efi_nvram.fd","hdd":"/data/vm1/hdd.qcow2","mem":"2048",'' @
     ''"useVirglrenderer":false}''\<close>

text \<open>A payload with the eight required keys and nothing else, for a given architecture.\<close>

definition example_text_required :: "string \<Rightarrow> string" where
  \<open>example_text_required a =
     ''{"arch":"'' @ a @ ''","cores":"2","description":"Debian","dvd":"","flash1":"efi.fd",'' @
     ''"flash2":"efi_nvram.fd","hdd":"hdd.qcow2","mem":"2048"}''\<close>

definition example_payload_required :: "string \<Rightarrow> QJsonObject" where
  "example_payload_required a =
     [''arch'' \<mapsto> JString a, ''cores'' \<mapsto> JString ''2'', ''description'' \<mapsto> JString ''Debian'',
      ''dvd'' \<mapsto> JString [], ''flash1'' \<mapsto> JString ''efi.fd'',
      ''flash2'' \<mapsto> JString ''efi_nvram.fd'', ''hdd'' \<mapsto> JString ''hdd.qcow2'',
      ''mem'' \<mapsto> JString ''2048'']"

text \<open>Two payloads that stop after \<open>description\<close> and after \<open>arch\<close>.\<close>

definition example_text_desc :: string where
  \<open>example_text_desc = ''{"description":"Debian"}''\<close>

definition example_payload_desc :: QJsonObject where
  "example_payload_desc = [''description'' \<mapsto> JString ''Debian'']"

definition example_text_mips :: string where
  \<open>example_text_mips = ''{"arch":"mips","description":"Debian"}''\<close>

definition example_payload_mips :: QJsonObject where
  "example_payload_mips = [''arch'' \<mapsto> JString ''mips'', ''description'' \<mapsto> JString ''Debian'']"

definition example_fromJson :: "string \<Rightarrow> string + QJsonDocument" where
  "example_fromJson bytes =
     (if bytes = example_text_vm1
      then Inr (ObjectDocument (machineToJSON_rootObject example_machine))
      else if bytes = example_text_required ''aarch64''
      then Inr (ObjectDocument (example_payload_required ''aarch64''))
      else if bytes = example_text_required ''mips''
      then Inr (ObjectDocument (example_payload_required ''mips''))
      else if bytes = example_text_desc then Inr (ObjectDocument example_payload_desc)
      else if bytes = example_text_mips then Inr (ObjectDocument example_payload_mips)
      else Inl ''illegal value'')"

definition example_toJson :: "QJsonDocument \<Rightarrow> string" where
  "example_toJson doc =
     (if doc = ObjectDocument (machineToJSON_rootObject example_machine)
      then example_text_vm1 else ''{}'')"

definition example_qt :: qt where
  "example_qt =
     \<lparr> toJson = example_toJson, fromJson = example_fromJson,
       applicationDirPath = ''/app'', writableLocation = ''/data'',
       currentCpuArchitecture = ''arm64'', createUuid = ''{7f1c}'',
       start = (\<lambda>program arguments.
                  \<lparr> exitCode = 0, readAllStandardError = [], written = Some ''QFI'' \<rparr>) \<rparr>"

text \<open>
  The storage root holds six machines: \<open>vm1\<close> is complete, the metadata of \<open>vm2\<close> is
  empty, \<open>vm3\<close> names an unknown architecture, \<open>vm4\<close> and \<open>vm5\<close> stop early, \<open>vm6\<close>
  has the required keys only.
\<close>

definition example_world :: world where
  "example_world =
     \<lparr> files =
         [(''/data/vm1/info.json'', example_text_vm1),
          (''/data/vm1/hdd.qcow2'', ''QFI''),
          (''/data/vm2/info.json'', []),
          (''/data/vm3/info.json'', example_text_required ''mips''),
          (''/data/vm4/info.json'', example_text_desc),
          (''/data/vm5/info.json'', example_text_mips),
          (''/data/vm6/info.json'', example_text_required ''aarch64''),
          (''/app/efi/x86_64/code.fd'', ''code-x86_64''),
          (''/app/share/qemu/edk2-i386-vars.fd'', ''vars-i386''),
          (''/dev/kvm'', [])],
       dirs = [''/data'', ''/data/vm1'', ''/data/vm2'', ''/data/vm3'', ''/data/vm4'',
               ''/data/vm5'', ''/data/vm6''],
       readable = (\<lambda>p. True), writable = (\<lambda>p. True), removable = (\<lambda>p. True),
       messages = [] \<rparr>"

text \<open>The required keys, in the order the schema lists them.\<close>

definition required_fields :: "string list" where
  "required_fields =
     [KEY_DESC, KEY_ARCH, KEY_CORES, KEY_MEM, KEY_HDD, KEY_DVD, KEY_FLASH1, KEY_FLASH2]"

definition example_manager :: VMManager where
  "example_manager = \<lparr> m_vms = [], m_refreshing = False, emitted = [] \<rparr>"

text \<open>
  The provisioning steps in the example: the target directory is that of \<open>vm2\<close>, which
  has no firmware files yet.
\<close>

definition example_target :: Machine where
  "example_target = example_machine\<lparr>storage := ''/data/vm2''\<rparr>"

definition example_run1 :: "bool \<times> Machine \<times> world" where
  "example_run1 = resetEFIFirmware example_qt example_target example_world"

definition example_run2 :: "bool \<times> Machine \<times> world" where
  "example_run2 = resetEFINVRAM example_qt (fst (snd example_run1)) (snd (snd example_run1))"

definition example_run3 :: "bool \<times> Machine \<times> world" where
  "example_run3 = resetEFIFirmware example_qt (fst (snd example_run2)) (snd (snd example_run2))"

definition example_run4 :: "bool \<times> Machine \<times> world" where
  "example_run4 = resetEFINVRAM example_qt (fst (snd example_run3)) (snd (snd example_run3))"

definition example_stale_world :: world where
  "example_stale_world =
     example_world\<lparr>removable := (\<lambda>p. False),
       files := files example_world
                @ [(''/data/vm2/efi.fd'', ''old code''), (''/data/vm2/efi_nvram.fd'', ''old vars'')]\<rparr>"

text \<open>
  Three failing runs in the example: the firmware of \<open>aarch64\<close> is not shipped; the
  NVRAM template cannot be read; \<open>qemu-img\<close> exits with 1.
\<close>

definition example_draft :: Machine where
  "example_draft =
     example_new_Machine\<lparr>name := ''Debian'', arch := ''aarch64'', cores := 2, mem := 2048,
       hddSize := 8\<rparr>"

definition example_failing_qt :: qt where
  "example_failing_qt =
     example_qt\<lparr>start := (\<lambda>program arguments.
        \<lparr> exitCode = 1, readAllStandardError = ''No space left on device'',
          written = None \<rparr>)\<rparr>"

definition example_unreadable_world :: world where
  "example_unreadable_world =
     example_world\<lparr>readable := (\<lambda>p. p \<noteq> ''/app/share/qemu/edk2-i386-vars.fd'')\<rparr>"

section \<open>Decimal text is read back\<close>

lemma is_digit_digit_char: "d < 10 \<Longrightarrow> is_digit (digit_char d)"
  by (simp add: is_digit_def digit_char_def)

lemma digit_val_digit_char: "d < 10 \<Longrightarrow> digit_val (digit_char d) = d"
  by (simp add: digit_val_def digit_char_def)

lemma show_nat_nonempty: "show_nat n \<noteq> []"
  by (subst show_nat.simps) simp

lemma show_nat_digits: "list_all is_digit (show_nat n)"
proof (induction n rule: show_nat.induct)
  case (1 n)
  show ?case
  proof (cases "n < 10")
    case True
    then show ?thesis by (subst show_nat.simps) (simp add: is_digit_digit_char)
  next
    case False
    with 1 show ?thesis by (subst show_nat.simps) (simp add: is_digit_digit_char)
  qed
qed

lemma show_nat_value: "foldl (\<lambda>a c. 10 * a + digit_val c) 0 (show_nat n) = n"
proof (induction n rule: show_nat.induct)
  case (1 n)
  show ?case
  proof (cases "n < 10")
    case True
    then show ?thesis by (subst show_nat.simps) (simp add: digit_val_digit_char)
  next
    case False
    with 1 show ?thesis by (subst show_nat.simps) (simp add: digit_val_digit_char)
  qed
qed

lemma parse_digits_show_nat: "parse_digits (show_nat n) = Some n"
  by (simp add: parse_digits_def show_nat_nonempty show_nat_digits show_nat_value)

lemma digit_not_space: "is_digit c \<Longrightarrow> \<not> is_space c"
  by (auto simp: is_digit_def is_space_def)

lemma digit_not_sign: "is_digit c \<Longrightarrow> c \<noteq> CHR ''-'' \<and> c \<noteq> CHR ''+''"
  by (auto simp: is_digit_def)

lemma trimmed_id:
  assumes "s \<noteq> []" "\<not> is_space (hd s)" "\<not> is_space (last s)"
  shows "trimmed s = s"
proof -
  have a: "dropWhile is_space s = s"
    using assms by (simp add: dropWhile_eq_self_iff)
  have b: "dropWhile is_space (rev s) = rev s"
    using assms by (simp add: dropWhile_eq_self_iff hd_rev)
  show ?thesis by (simp add: trimmed_def a b)
qed

lemma show_nat_hd: "is_digit (hd (show_nat n))"
  using show_nat_digits [of n] show_nat_nonempty [of n]
  by (cases "show_nat n") simp_all

lemma show_nat_last: "is_digit (last (show_nat n))"
  using show_nat_digits [of n] show_nat_nonempty [of n]
  by (simp add: list_all_iff)

lemma toLongLong_number: "QString_toLongLong (QString_number n) = Some (sint n)"
proof -
  have lo: "- (2 ^ 63) \<le> sint n" using sint_ge [of n] by simp
  have hi: "sint n < 2 ^ 63" using sint_lt [of n] by simp
  show ?thesis
  proof (cases "sint n < 0")
    case True
    let ?s = "CHR ''-'' # show_nat (nat (- sint n))"
    have h: "\<not> is_space (hd ?s)" by (simp add: is_space_def)
    have l: "\<not> is_space (last ?s)"
      by (simp add: show_nat_nonempty digit_not_space show_nat_last)
    have t: "trimmed ?s = ?s"
      using h l by (intro trimmed_id) simp_all
    show ?thesis using True lo hi
      by (simp add: QString_toLongLong_def QString_number_def t parse_digits_show_nat)
  next
    case False
    let ?s = "show_nat (nat (sint n))"
    have t: "trimmed ?s = ?s"
      by (rule trimmed_id)
         (simp_all add: show_nat_nonempty digit_not_space show_nat_last show_nat_hd)
    obtain c cs where s: "?s = c # cs"
      using show_nat_nonempty [of "nat (sint n)"] by (cases ?s) auto
    have "is_digit c" using show_nat_hd [of "nat (sint n)"] s by simp
    then have c: "c \<noteq> CHR ''-''" "c \<noteq> CHR ''+''" using digit_not_sign by auto
    have p: "parse_digits (c # cs) = Some (nat (sint n))"
      using parse_digits_show_nat [of "nat (sint n)"] s by simp
    have t': "trimmed (c # cs) = c # cs" using t s by simp
    show ?thesis using False lo hi c p
      by (simp add: QString_toLongLong_def QString_number_def t' s)
  qed
qed

section \<open>The codec\<close>

lemma jvalue_jinsert: "jvalue (jinsert k v obj) k' = (if k' = k then v else jvalue obj k')"
  by (simp add: jvalue_def jinsert_def)

lemma contains_jinsert: "contains (jinsert k v obj) k' = (k' = k \<or> contains obj k')"
  by (simp add: contains_def jinsert_def)

lemma contains_empty: "contains Map.empty k = False"
  by (simp add: contains_def)

lemmas obj_simps = jvalue_jinsert contains_jinsert contains_empty KEY_defs

lemma decode_encoded_object:
  assumes "arch r \<in> set VALID_ARCHES"
  shows "\<exists>ret. listEntryForObject (machineToJSON_rootObject r)
            [''path'' \<mapsto> VString path, KEY_STORAGE \<mapsto> VString (storage r)] = Inr ret
         \<and> fromQml new_Machine ret = r\<lparr>hddSize := hddSize new_Machine\<rparr>"
  using assms
  by (cases r, cases new_Machine)
     (simp add: listEntryForObject_def machineToJSON_rootObject_def obj_simps fromQml_def
        vvalue_def toLongLong_number)

text \<open>
  Claim C1. A machine \<open>r\<close> with a valid architecture is encoded, the bytes are stored in a
  readable file, and the file is decoded with the storage path of \<open>r\<close>: decoding succeeds,
  and the entry read back gives \<open>r\<close> again, field by field, the three booleans included
  (also when they are false). The size of the disk to create is not part of the metadata:
  it keeps the value of the fresh object. The JSON writer and parser are Qt's; what is
  asked of them, and of them alone, is that \<open>fromJson\<close> reads the bytes \<open>toJson\<close> prints
  for this object back as the same object. That the bytes in the file are those bytes is
  for the encoder \<open>machineToJSON\<close> to ensure.
\<close>

theorem roundtrip:
  fixes r :: Machine
  assumes "arch r \<in> set VALID_ARCHES"
    and "map_of (files w) path = Some (machineToJSON q r)"
    and "readable w path"
    and "fromJson q (toJson q (ObjectDocument (machineToJSON_rootObject r)))
           = Inr (ObjectDocument (machineToJSON_rootObject r))"
  shows "\<exists>ret. listEntryForJSON q w path (storage r) = Inr ret
           \<and> fromQml new_Machine ret = r\<lparr>hddSize := hddSize new_Machine\<rparr>"
proof -
  have bytes: "readAll w path = toJson q (ObjectDocument (machineToJSON_rootObject r))"
    using assms(2) by (simp add: readAll_def machineToJSON_def)
  have parsed: "fromJson q (readAll w path)
                  = Inr (ObjectDocument (machineToJSON_rootObject r))"
    using assms(4) by (simp add: bytes)
  show ?thesis
    using assms(2,3) parsed decode_encoded_object [OF assms(1), of path new_Machine]
    by (simp add: listEntryForJSON_def QFile_exists_def)
qed

lemma example_valid: "arch example_machine \<in> set VALID_ARCHES"
  by (simp add: example_machine_def VALID_ARCHES_def)

lemma example_file:
  "map_of (files example_world) ''/data/vm1/info.json''
     = Some (machineToJSON example_qt example_machine)"
  by (simp add: example_world_def machineToJSON_def example_qt_def example_toJson_def)

lemma example_parse:
  "fromJson example_qt (toJson example_qt (ObjectDocument (machineToJSON_rootObject example_machine)))
     = Inr (ObjectDocument (machineToJSON_rootObject example_machine))"
  by (simp add: example_qt_def example_toJson_def example_fromJson_def)

lemma example_readable: "readable example_world p"
  by (simp add: example_world_def)

theorem roundtrip_witness:
  "arch example_machine \<in> set VALID_ARCHES
   \<and> map_of (files example_world) ''/data/vm1/info.json''
       = Some (machineToJSON example_qt example_machine)
   \<and> readable example_world ''/data/vm1/info.json''
   \<and> fromJson example_qt
         (toJson example_qt (ObjectDocument (machineToJSON_rootObject example_machine)))
       = Inr (ObjectDocument (machineToJSON_rootObject example_machine))
   \<and> \<not> isl (listEntryForJSON example_qt example_world ''/data/vm1/info.json''
               (storage example_machine))
   \<and> fromQml example_new_Machine
        (projr (listEntryForJSON example_qt example_world ''/data/vm1/info.json''
                  (storage example_machine)))
       = example_machine\<lparr>hddSize := hddSize example_new_Machine\<rparr>"
  using roundtrip [OF example_valid example_file example_readable example_parse,
      of example_new_Machine]
    example_valid example_file example_readable example_parse
  by auto

lemma listEntryForJSON_object:
  assumes "QFile_exists w path" "readable w path"
    and "fromJson q (readAll w path) = Inr (ObjectDocument obj)"
  shows "listEntryForJSON q w path st
           = listEntryForObject obj [''path'' \<mapsto> VString path, KEY_STORAGE \<mapsto> VString st]"
  using assms by (simp add: listEntryForJSON_def)

lemma first_missing_object:
  assumes "find (\<lambda>k. \<not> contains obj k) required_fields = Some k"
  shows "listEntryForObject obj ret
           = (if k \<in> {KEY_DESC, KEY_ARCH} \<or> toString (jvalue obj KEY_ARCH) \<in> set VALID_ARCHES
              then Inl (Missing k) else Inl Invalid_architecture)"
  using assms
  by (auto simp: listEntryForObject_def required_fields_def KEY_defs Let_def split: if_splits)

text \<open>
  Claim C2, as amended. The payload is well formed (the file is there, can be read and
  parses to an object) and \<open>k\<close> is the first required key, in the order of the schema,
  that it lacks. Decoding fails and returns no entry. The error is \<open>Missing k\<close>, unless
  \<open>k\<close> comes after \<open>arch\<close> and the value of \<open>arch\<close> is not a valid architecture: the
  architecture is checked before the later keys are looked for, and the error is
  \<open>Invalid architecture\<close> then.
\<close>

theorem schema_rejection:
  assumes "QFile_exists w path" and "readable w path"
    and "fromJson q (readAll w path) = Inr (ObjectDocument obj)"
    and "find (\<lambda>k. \<not> contains obj k) required_fields = Some k"
  shows "listEntryForJSON q w path st
           = (if k \<in> {KEY_DESC, KEY_ARCH} \<or> toString (jvalue obj KEY_ARCH) \<in> set VALID_ARCHES
              then Inl (Missing k) else Inl Invalid_architecture)"
  using first_missing_object [OF assms(4)] listEntryForJSON_object [OF assms(1-3)]
  by simp

lemma all_required_object:
  assumes "list_all (contains obj) required_fields"
  shows "if toString (jvalue obj KEY_ARCH) \<in> {''x86_64'', ''aarch64''}
         then \<not> isl (listEntryForObject obj ret)
         else listEntryForObject obj ret = Inl Invalid_architecture"
  using assms
  by (simp add: listEntryForObject_def required_fields_def Let_def VALID_ARCHES_def)


lemma example_exists:
  "QFile_exists example_world ''/data/vm4/info.json''"
  "QFile_exists example_world ''/data/vm5/info.json''"
  "QFile_exists example_world ''/data/vm3/info.json''"
  "QFile_exists example_world ''/data/vm6/info.json''"
  by (simp_all add: QFile_exists_def example_world_def)

lemma example_vm4:
  "fromJson example_qt (readAll example_world ''/data/vm4/info.json'')
     = Inr (ObjectDocument example_payload_desc)"
  by (simp add: readAll_def example_world_def example_qt_def example_fromJson_def
      example_text_vm1_def example_text_required_def example_text_desc_def)

lemma example_vm5:
  "fromJson example_qt (readAll example_world ''/data/vm5/info.json'')
     = Inr (ObjectDocument example_payload_mips)"
  by (simp add: readAll_def example_world_def example_qt_def example_fromJson_def
      example_text_vm1_def example_text_required_def example_text_desc_def
      example_text_mips_def)

lemma example_vm3:
  "fromJson example_qt (readAll example_world ''/data/vm3/info.json'')
     = Inr (ObjectDocument (example_payload_required ''mips''))"
  by (simp add: readAll_def example_world_def example_qt_def example_fromJson_def
      example_text_vm1_def example_text_required_def)

lemma example_vm6:
  "fromJson example_qt (readAll example_world ''/data/vm6/info.json'')
     = Inr (ObjectDocument (example_payload_required ''aarch64''))"
  by (simp add: readAll_def example_world_def example_qt_def example_fromJson_def
      example_text_vm1_def example_text_required_def)

lemma example_first_missing:
  "find (\<lambda>k. \<not> contains example_payload_desc k) required_fields = Some KEY_ARCH"
  "find (\<lambda>k. \<not> contains example_payload_mips k) required_fields = Some KEY_CORES"
  by (simp_all add: required_fields_def contains_def example_payload_desc_def
      example_payload_mips_def KEY_defs)

text \<open>
  Claim C2 as first stated fails: the payload of \<open>vm5\<close> has \<open>description\<close> and
  \<open>arch\<close> (with the value \<open>mips\<close>) and lacks \<open>cores\<close>; the error is
  \<open>Invalid architecture\<close>, not \<open>Missing 'cores'\<close>.
\<close>

theorem schema_rejection_counterexample:
  "QFile_exists example_world ''/data/vm5/info.json''
   \<and> readable example_world ''/data/vm5/info.json''
   \<and> fromJson example_qt (readAll example_world ''/data/vm5/info.json'')
       = Inr (ObjectDocument example_payload_mips)
   \<and> find (\<lambda>k. \<not> contains example_payload_mips k) required_fields = Some KEY_CORES
   \<and> listEntryForJSON example_qt example_world ''/data/vm5/info.json'' ''/data/vm5''
       = Inl Invalid_architecture
   \<and> listEntryForJSON example_qt example_world ''/data/vm5/info.json'' ''/data/vm5''
       \<noteq> Inl (Missing KEY_CORES)"
proof -
  have "listEntryForJSON example_qt example_world ''/data/vm5/info.json'' ''/data/vm5''
          = Inl Invalid_architecture"
    using example_exists(2) example_vm5
    by (simp add: listEntryForJSON_def listEntryForObject_def example_readable
        example_payload_mips_def contains_def jvalue_def KEY_defs VALID_ARCHES_def)
  then show ?thesis
    using example_exists(2) example_vm5 example_first_missing(2) example_readable by simp
qed

theorem schema_rejection_witness:
  "QFile_exists example_world ''/data/vm4/info.json''
   \<and> readable example_world ''/data/vm4/info.json''
   \<and> fromJson example_qt (readAll example_world ''/data/vm4/info.json'')
       = Inr (ObjectDocument example_payload_desc)
   \<and> find (\<lambda>k. \<not> contains example_payload_desc k) required_fields = Some KEY_ARCH
   \<and> listEntryForJSON example_qt example_world ''/data/vm4/info.json'' ''/data/vm4''
       = Inl (Missing ''arch'')"
  using schema_rejection [OF example_exists(1) example_readable example_vm4
      example_first_missing(1), of "''/data/vm4''"]
    example_exists(1) example_readable example_vm4 example_first_missing(1)
  by (simp add: KEY_defs)

text \<open>
  Claim C3. The payload is well formed and has all eight required keys. If the value of
  \<open>arch\<close> is the text \<open>x86_64\<close> or \<open>aarch64\<close>, decoding succeeds; for any other value
  (another text such as \<open>mips\<close>, or a value that is no text) it fails with
  \<open>Invalid architecture\<close>.
\<close>

theorem arch_validation:
  assumes "QFile_exists w path" and "readable w path"
    and "fromJson q (readAll w path) = Inr (ObjectDocument obj)"
    and "list_all (contains obj) required_fields"
  shows "if toString (jvalue obj KEY_ARCH) \<in> {''x86_64'', ''aarch64''}
         then \<not> isl (listEntryForJSON q w path st)
         else listEntryForJSON q w path st = Inl Invalid_architecture"
  using all_required_object [OF assms(4)] listEntryForJSON_object [OF assms(1-3)]
  by simp

lemma example_all_required: "list_all (contains (example_payload_required a)) required_fields"
  by (simp add: required_fields_def contains_def example_payload_required_def KEY_defs)

theorem arch_validation_witness:
  "QFile_exists example_world ''/data/vm6/info.json''
   \<and> readable example_world ''/data/vm6/info.json''
   \<and> fromJson example_qt (readAll example_world ''/data/vm6/info.json'')
       = Inr (ObjectDocument (example_payload_required ''aarch64''))
   \<and> list_all (contains (example_payload_required ''aarch64'')) required_fields
   \<and> \<not> isl (listEntryForJSON example_qt example_world ''/data/vm6/info.json'' ''/data/vm6'')
   \<and> QFile_exists example_world ''/data/vm3/info.json''
   \<and> readable example_world ''/data/vm3/info.json''
   \<and> fromJson example_qt (readAll example_world ''/data/vm3/info.json'')
       = Inr (ObjectDocument (example_payload_required ''mips''))
   \<and> list_all (contains (example_payload_required ''mips'')) required_fields
   \<and> listEntryForJSON example_qt example_world ''/data/vm3/info.json'' ''/data/vm3''
       = Inl Invalid_architecture"
  using arch_validation [OF example_exists(4) example_readable example_vm6
      example_all_required, of "''/data/vm6''"]
    arch_validation [OF example_exists(3) example_readable example_vm3
      example_all_required, of "''/data/vm3''"]
    example_exists example_readable example_vm6 example_vm3 example_all_required
  by (simp add: example_payload_required_def jvalue_def KEY_defs)


lemma example_vm6_object:
  "listEntryForJSON example_qt example_world ''/data/vm6/info.json'' ''/data/vm6''
     = listEntryForObject (example_payload_required ''aarch64'')
         [''path'' \<mapsto> VString ''/data/vm6/info.json'', KEY_STORAGE \<mapsto> VString ''/data/vm6'']"
  using example_exists(4) example_vm6 by (simp add: listEntryForJSON_def example_readable)

text \<open>
  Claim C8 at the payload of \<open>vm6\<close>, which has the eight required keys and none of the
  three optional ones: decoding succeeds, the entry maps \<open>useVirglrenderer\<close> and
  \<open>enableFileSharing\<close> to false, and it has no key \<open>externalWindowOnly\<close> at all.
\<close>

theorem externalWindowOnly_not_defaulted:
  "\<not> contains (example_payload_required ''aarch64'') KEY_VIRGLRENDERER
   \<and> \<not> contains (example_payload_required ''aarch64'') KEY_ENABLEFILESHARING
   \<and> \<not> contains (example_payload_required ''aarch64'') KEY_EXTERNAL_WINDOW_ONLY
   \<and> fromJson example_qt (readAll example_world ''/data/vm6/info.json'')
       = Inr (ObjectDocument (example_payload_required ''aarch64''))
   \<and> \<not> isl (listEntryForJSON example_qt example_world ''/data/vm6/info.json'' ''/data/vm6'')
   \<and> projr (listEntryForJSON example_qt example_world ''/data/vm6/info.json'' ''/data/vm6'')
         KEY_VIRGLRENDERER = Some (VBool False)
   \<and> projr (listEntryForJSON example_qt example_world ''/data/vm6/info.json'' ''/data/vm6'')
         KEY_ENABLEFILESHARING = Some (VBool False)
   \<and> projr (listEntryForJSON example_qt example_world ''/data/vm6/info.json'' ''/data/vm6'')
         KEY_EXTERNAL_WINDOW_ONLY = None"
  using example_vm6
  by (simp add: example_vm6_object listEntryForObject_def example_payload_required_def
      contains_def jvalue_def KEY_defs VALID_ARCHES_def)

text \<open>
  Claim C9 as first stated fails in its last part: the payload of \<open>vm6\<close> never sets
  \<open>externalWindowOnly\<close>, the decoded entry has no such key, and yet the machine made
  from that entry is encoded with \<open>externalWindowOnly\<close> set to false.
\<close>

theorem encode_emits_counterexample:
  "\<not> contains (example_payload_required ''aarch64'') KEY_EXTERNAL_WINDOW_ONLY
   \<and> fromJson example_qt (readAll example_world ''/data/vm6/info.json'')
       = Inr (ObjectDocument (example_payload_required ''aarch64''))
   \<and> \<not> isl (listEntryForJSON example_qt example_world ''/data/vm6/info.json'' ''/data/vm6'')
   \<and> projr (listEntryForJSON example_qt example_world ''/data/vm6/info.json'' ''/data/vm6'')
         KEY_EXTERNAL_WINDOW_ONLY = None
   \<and> machineToJSON_rootObject
         (fromQml example_new_Machine
            (projr (listEntryForJSON example_qt example_world ''/data/vm6/info.json''
                      ''/data/vm6'')))
         KEY_EXTERNAL_WINDOW_ONLY = Some (JBool False)"
  using example_vm6
  by (simp add: example_vm6_object listEntryForObject_def example_payload_required_def
      contains_def jvalue_def KEY_defs VALID_ARCHES_def machineToJSON_rootObject_def
      jinsert_def fromQml_def vvalue_def)

text \<open>
  Claim C9, as amended. For every machine, encoding is defined and the object it writes
  has exactly eleven keys: the eight required ones and the three optional booleans.
  \<open>cores\<close> and \<open>mem\<close> are written as texts, the decimal form of the number. The key
  \<open>externalWindowOnly\<close> is always written, with the current value of the field (false
  when it was never set).
\<close>

theorem encode_emits:
  "dom (machineToJSON_rootObject m)
     = {KEY_DESC, KEY_ARCH, KEY_CORES, KEY_MEM, KEY_DVD, KEY_HDD, KEY_FLASH1, KEY_FLASH2,
        KEY_VIRGLRENDERER, KEY_ENABLEFILESHARING, KEY_EXTERNAL_WINDOW_ONLY}
   \<and> machineToJSON_rootObject m KEY_DESC = Some (JString (name m))
   \<and> machineToJSON_rootObject m KEY_ARCH = Some (JString (arch m))
   \<and> machineToJSON_rootObject m KEY_CORES = Some (JString (QString_number (cores m)))
   \<and> machineToJSON_rootObject m KEY_MEM = Some (JString (QString_number (mem m)))
   \<and> machineToJSON_rootObject m KEY_DVD = Some (JString (dvdImage m))
   \<and> machineToJSON_rootObject m KEY_HDD = Some (JString (hdd m))
   \<and> machineToJSON_rootObject m KEY_FLASH1 = Some (JString (flash1 m))
   \<and> machineToJSON_rootObject m KEY_FLASH2 = Some (JString (flash2 m))
   \<and> machineToJSON_rootObject m KEY_VIRGLRENDERER = Some (JBool (useVirglrenderer m))
   \<and> machineToJSON_rootObject m KEY_ENABLEFILESHARING = Some (JBool (enableFileSharing m))
   \<and> machineToJSON_rootObject m KEY_EXTERNAL_WINDOW_ONLY
       = Some (JBool (externalWindowOnly m))
   \<and> machineToJSON q m = toJson q (ObjectDocument (machineToJSON_rootObject m))"
proof -
  have d: "dom (machineToJSON_rootObject m)
     = {KEY_DESC, KEY_ARCH, KEY_CORES, KEY_MEM, KEY_DVD, KEY_HDD, KEY_FLASH1, KEY_FLASH2,
        KEY_VIRGLRENDERER, KEY_ENABLEFILESHARING, KEY_EXTERNAL_WINDOW_ONLY}"
    by (auto simp: machineToJSON_rootObject_def jinsert_def)
  show ?thesis
    by (simp add: d) (simp add: machineToJSON_rootObject_def jinsert_def KEY_defs machineToJSON_def)
qed

theorem encode_emits_witness:
  "dom (machineToJSON_rootObject example_machine)
     = {KEY_DESC, KEY_ARCH, KEY_CORES, KEY_MEM, KEY_DVD, KEY_HDD, KEY_FLASH1, KEY_FLASH2,
        KEY_VIRGLRENDERER, KEY_ENABLEFILESHARING, KEY_EXTERNAL_WINDOW_ONLY}
   \<and> machineToJSON_rootObject example_machine KEY_CORES = Some (JString ''2'')
   \<and> machineToJSON_rootObject example_machine KEY_MEM = Some (JString ''2048'')
   \<and> machineToJSON_rootObject example_machine KEY_EXTERNAL_WINDOW_ONLY = Some (JBool False)
   \<and> machineToJSON example_qt example_machine = example_text_vm1"
proof -
  have n: "QString_number (2 :: 32 word) = ''2''" "QString_number (2048 :: 32 word) = ''2048''"
    by code_simp+
  show ?thesis
    using encode_emits [of example_machine example_qt] n
    by (simp add: example_machine_def example_qt_def example_toJson_def)
qed

section \<open>The scan, the capability query and the edit\<close>

lemma refreshVMs_loop_eq:
  "refreshVMs_loop q w ps vms
     = vms @ map projr (filter (\<lambda>r. \<not> isl r)
                (map (\<lambda>p. listEntryForJSON q w p (canonicalPath p)) ps))"
  by (induction ps arbitrary: vms) (auto split: sum.splits)

text \<open>
  Claim C7. The scan decodes every metadata file the directory iterator yields; the
  catalog it stores is, in the order of the scan, the entries of exactly those files whose
  decoding succeeded. A file whose decoding throws is skipped and the files after it are
  still decoded. The scan always ends, with the refreshing flag off.
\<close>

theorem refreshVMs_skips:
  "m_vms (refreshVMs q w this)
     = map projr (filter (\<lambda>r. \<not> isl r)
         (map (\<lambda>p. listEntryForJSON q w p (canonicalPath p))
            (QDirIterator w (writableLocation q) ''info.json'')))
   \<and> m_refreshing (refreshVMs q w this) = False"
  by (simp add: refreshVMs_def setRefreshing_def refreshVMs_loop_eq Let_def)

lemma example_dirIt:
  "QDirIterator example_world (writableLocation example_qt) ''info.json''
     = [''/data/vm1/info.json'', ''/data/vm2/info.json'', ''/data/vm3/info.json'',
        ''/data/vm4/info.json'', ''/data/vm5/info.json'', ''/data/vm6/info.json'']"
  by (simp add: QDirIterator_def example_world_def example_qt_def fileName_def lower_char_def)


lemma example_entries:
  "\<not> isl (listEntryForJSON example_qt example_world ''/data/vm1/info.json'' ''/data/vm1'')"
  "isl (listEntryForJSON example_qt example_world ''/data/vm2/info.json'' ''/data/vm2'')"
  "isl (listEntryForJSON example_qt example_world ''/data/vm3/info.json'' ''/data/vm3'')"
  "isl (listEntryForJSON example_qt example_world ''/data/vm4/info.json'' ''/data/vm4'')"
  "isl (listEntryForJSON example_qt example_world ''/data/vm5/info.json'' ''/data/vm5'')"
  "\<not> isl (listEntryForJSON example_qt example_world ''/data/vm6/info.json'' ''/data/vm6'')"
proof -
  have e1: "QFile_exists example_world ''/data/vm1/info.json''"
    by (simp add: QFile_exists_def example_world_def)
  have p1: "fromJson example_qt (readAll example_world ''/data/vm1/info.json'')
              = Inr (ObjectDocument (machineToJSON_rootObject example_machine))"
    using example_parse example_file by (simp add: readAll_def machineToJSON_def)
  show "\<not> isl (listEntryForJSON example_qt example_world ''/data/vm1/info.json'' ''/data/vm1'')"
    using decode_encoded_object [OF example_valid, of "''/data/vm1/info.json''" example_new_Machine]
      listEntryForJSON_object [OF e1 example_readable p1, of "''/data/vm1''"]
    by (auto simp: example_machine_def)
  show "isl (listEntryForJSON example_qt example_world ''/data/vm2/info.json'' ''/data/vm2'')"
    by (simp add: listEntryForJSON_def QFile_exists_def readAll_def example_world_def
        example_qt_def example_fromJson_def example_text_vm1_def example_text_required_def
        example_text_desc_def example_text_mips_def)
  show "isl (listEntryForJSON example_qt example_world ''/data/vm3/info.json'' ''/data/vm3'')"
    using all_required_object [OF example_all_required, of "''mips''"]
      listEntryForJSON_object [OF example_exists(3) example_readable example_vm3, of "''/data/vm3''"]
    by (simp add: example_payload_required_def jvalue_def KEY_defs)
  show "isl (listEntryForJSON example_qt example_world ''/data/vm4/info.json'' ''/data/vm4'')"
    using first_missing_object [OF example_first_missing(1)]
      listEntryForJSON_object [OF example_exists(1) example_readable example_vm4, of "''/data/vm4''"]
    by simp
  show "isl (listEntryForJSON example_qt example_world ''/data/vm5/info.json'' ''/data/vm5'')"
    using first_missing_object [OF example_first_missing(2)]
      listEntryForJSON_object [OF example_exists(2) example_readable example_vm5, of "''/data/vm5''"]
    by simp
  show "\<not> isl (listEntryForJSON example_qt example_world ''/data/vm6/info.json'' ''/data/vm6'')"
    using all_required_object [OF example_all_required, of "''aarch64''"]
      listEntryForJSON_object [OF example_exists(4) example_readable example_vm6, of "''/data/vm6''"]
    by (simp add: example_payload_required_def jvalue_def KEY_defs)
qed

lemma example_canonicalPath:
  "canonicalPath ''/data/vm1/info.json'' = ''/data/vm1''"
  "canonicalPath ''/data/vm2/info.json'' = ''/data/vm2''"
  "canonicalPath ''/data/vm3/info.json'' = ''/data/vm3''"
  "canonicalPath ''/data/vm4/info.json'' = ''/data/vm4''"
  "canonicalPath ''/data/vm5/info.json'' = ''/data/vm5''"
  "canonicalPath ''/data/vm6/info.json'' = ''/data/vm6''"
  by (simp_all add: canonicalPath_def)

theorem refreshVMs_skips_witness:
  "m_vms (refreshVMs example_qt example_world example_manager)
     = [projr (listEntryForJSON example_qt example_world ''/data/vm1/info.json'' ''/data/vm1''),
        projr (listEntryForJSON example_qt example_world ''/data/vm6/info.json'' ''/data/vm6'')]
   \<and> length (QDirIterator example_world (writableLocation example_qt) ''info.json'') = 6
   \<and> m_refreshing (refreshVMs example_qt example_world example_manager) = False"
  using refreshVMs_skips [of example_qt example_world example_manager]
  by (simp add: example_dirIt example_canonicalPath example_entries)

text \<open>
  Claim C6. \<open>canVirtualize\<close> answers true exactly when \<open>/dev/kvm\<close> exists, is readable
  and writable, and the asked architecture equals the CPU architecture of the host, where
  the host's \<open>arm64\<close> counts as \<open>aarch64\<close>. Without the device node the answer is false
  whatever the architectures are.
\<close>

theorem canVirtualize_iff:
  "fst (canVirtualize q w a)
     = (QFile_exists w ''/dev/kvm'' \<and> readable w ''/dev/kvm'' \<and> writable w ''/dev/kvm''
        \<and> a = (if currentCpuArchitecture q = ''arm64'' then ''aarch64''
                else currentCpuArchitecture q))"
  by (auto simp: canVirtualize_def Let_def QFile_exists_def qDebug_def)

theorem canVirtualize_iff_witness:
  "currentCpuArchitecture example_qt = ''arm64''
   \<and> fst (canVirtualize example_qt example_world ''aarch64'')
   \<and> \<not> fst (canVirtualize example_qt example_world ''arm64'')
   \<and> \<not> fst (canVirtualize example_qt example_world ''x86_64'')
   \<and> \<not> QFile_exists (example_world\<lparr>files := []\<rparr>) ''/dev/kvm''
   \<and> \<not> fst (canVirtualize example_qt (example_world\<lparr>files := []\<rparr>) ''aarch64'')"
  using canVirtualize_iff [of example_qt example_world "''aarch64''"]
    canVirtualize_iff [of example_qt example_world "''arm64''"]
    canVirtualize_iff [of example_qt example_world "''x86_64''"]
    canVirtualize_iff [of example_qt "example_world\<lparr>files := []\<rparr>" "''aarch64''"]
  by (simp add: example_qt_def example_world_def QFile_exists_def)

lemma filter_update_other:
  "filter (\<lambda>e. fst e \<noteq> k) (AList.update k v al) = filter (\<lambda>e. fst e \<noteq> k) al"
  by (induction al) auto

text \<open>
  Claim C10. For a machine \<open>m\<close>, \<open>editVM\<close> succeeds exactly when the metadata file
  \<open>info.json\<close> under the storage path of \<open>m\<close> can be opened for writing. All other
  files keep their bytes and their order, the directories are unchanged, and the metadata
  file holds the encoded machine after a success and is untouched after a failure.
\<close>

theorem editVM_frame:
  "fst (editVM q (Some m) w) = writable w (storage m @ ''/info.json'')
   \<and> filter (\<lambda>e. fst e \<noteq> storage m @ ''/info.json'') (files (snd (editVM q (Some m) w)))
       = filter (\<lambda>e. fst e \<noteq> storage m @ ''/info.json'') (files w)
   \<and> dirs (snd (editVM q (Some m) w)) = dirs w
   \<and> map_of (files (snd (editVM q (Some m) w))) (storage m @ ''/info.json'')
       = (if writable w (storage m @ ''/info.json'') then Some (machineToJSON q m)
          else map_of (files w) (storage m @ ''/info.json''))"
  by (simp add: editVM_def Let_def QFile_write_def qWarning_def filter_update_other update_conv')


theorem editVM_frame_witness:
  "fst (editVM example_qt (Some (example_machine\<lparr>storage := ''/data/vm2''\<rparr>)) example_world)
   \<and> writable example_world ''/data/vm2/info.json''
   \<and> map_of (files example_world) ''/data/vm2/info.json'' = Some []
   \<and> map_of (files (snd (editVM example_qt (Some (example_machine\<lparr>storage := ''/data/vm2''\<rparr>))
                          example_world))) ''/data/vm2/info.json''
       = Some example_text_vm1
   \<and> filter (\<lambda>e. fst e \<noteq> ''/data/vm2/info.json'')
        (files (snd (editVM example_qt (Some (example_machine\<lparr>storage := ''/data/vm2''\<rparr>))
                       example_world)))
       = filter (\<lambda>e. fst e \<noteq> ''/data/vm2/info.json'') (files example_world)
   \<and> dirs (snd (editVM example_qt (Some (example_machine\<lparr>storage := ''/data/vm2''\<rparr>))
                   example_world))
       = dirs example_world"
proof -
  have j: "machineToJSON example_qt (example_machine\<lparr>storage := ''/data/vm2''\<rparr>)
             = example_text_vm1"
    by (simp add: machineToJSON_def example_qt_def example_toJson_def
        machineToJSON_rootObject_def)
  have f: "map_of (files example_world) ''/data/vm2/info.json'' = Some []"
    by (simp add: example_world_def)
  have w: "writable example_world ''/data/vm2/info.json''"
    by (simp add: example_world_def)
  show ?thesis
    using editVM_frame [of example_qt "example_machine\<lparr>storage := ''/data/vm2''\<rparr>" example_world]
      j f w
    by simp
qed

lemma suffix_distinct:
  "a @ ''/efi.fd'' \<noteq> b @ ''/efi/'' @ c @ ''/code.fd''"
  "a @ ''/efi.fd'' \<noteq> b @ ''/share/qemu/edk2-'' @ c @ ''-vars.fd''"
  "a @ ''/efi_nvram.fd'' \<noteq> b @ ''/efi/'' @ c @ ''/code.fd''"
  "a @ ''/efi_nvram.fd'' \<noteq> b @ ''/share/qemu/edk2-'' @ c @ ''-vars.fd''"
  "a @ ''/efi.fd'' \<noteq> a @ ''/efi_nvram.fd''"
proof -
  show "a @ ''/efi.fd'' \<noteq> b @ ''/efi/'' @ c @ ''/code.fd''"
  proof
    assume "a @ ''/efi.fd'' = b @ ''/efi/'' @ c @ ''/code.fd''"
    then have "rev (a @ ''/efi.fd'') = rev (b @ ''/efi/'' @ c @ ''/code.fd'')" by (rule arg_cong)
    then show False by simp
  qed
  show "a @ ''/efi.fd'' \<noteq> b @ ''/share/qemu/edk2-'' @ c @ ''-vars.fd''"
  proof
    assume "a @ ''/efi.fd'' = b @ ''/share/qemu/edk2-'' @ c @ ''-vars.fd''"
    then have "rev (a @ ''/efi.fd'') = rev (b @ ''/share/qemu/edk2-'' @ c @ ''-vars.fd'')"
      by (rule arg_cong)
    then show False by simp
  qed
  show "a @ ''/efi_nvram.fd'' \<noteq> b @ ''/efi/'' @ c @ ''/code.fd''"
  proof
    assume "a @ ''/efi_nvram.fd'' = b @ ''/efi/'' @ c @ ''/code.fd''"
    then have "rev (a @ ''/efi_nvram.fd'') = rev (b @ ''/efi/'' @ c @ ''/code.fd'')"
      by (rule arg_cong)
    then show False by simp
  qed
  show "a @ ''/efi_nvram.fd'' \<noteq> b @ ''/share/qemu/edk2-'' @ c @ ''-vars.fd''"
  proof
    assume "a @ ''/efi_nvram.fd'' = b @ ''/share/qemu/edk2-'' @ c @ ''-vars.fd''"
    then have "rev (a @ ''/efi_nvram.fd'') = rev (b @ ''/share/qemu/edk2-'' @ c @ ''-vars.fd'')"
      by (rule arg_cong)
    then show False by simp
  qed
  show "a @ ''/efi.fd'' \<noteq> a @ ''/efi_nvram.fd''" by simp
qed

lemma delete_absent: "map_of al k = None \<Longrightarrow> AList.delete k al = al"
  by (simp add: map_of_eq_None_iff)

lemma filter_delete_same: "filter (\<lambda>e. fst e = k) (AList.delete k al) = []"
  by (induction al) auto

lemma resetEFIFirmware_success:
  assumes "map_of (files w) (applicationDirPath q @ ''/efi/'' @ arch m @ ''/code.fd'') = Some code"
    and "readable w (applicationDirPath q @ ''/efi/'' @ arch m @ ''/code.fd'')"
    and "writable w (storage m @ ''/efi.fd'')"
    and "removable w (storage m @ ''/efi.fd'')"
  shows "resetEFIFirmware q m w
           = (True, m\<lparr>flash1 := storage m @ ''/efi.fd''\<rparr>,
              w\<lparr>files := AList.delete (storage m @ ''/efi.fd'') (files w)
                          @ [(storage m @ ''/efi.fd'', code)],
                 messages := messages w @
                   (if QFile_exists w (storage m @ ''/efi.fd'')
                    then [(QtDebugMsg, ''Attempting to remove existing target ''
                                        @ storage m @ ''/efi.fd'')]
                    else [])\<rparr>)"
  using assms suffix_distinct(1) [of "storage m" "applicationDirPath q" "arch m"]
  by (auto simp: resetEFIFirmware_def QFile_copy_def QFile_exists_def QFile_remove_def
      qDebug_def qWarning_def Let_def delete_conv' delete_absent)


lemma resetEFINVRAM_success:
  assumes "map_of (files w) (applicationDirPath q @ ''/share/qemu/edk2-''
              @ (if arch m = ''aarch64'' then ''arm'' else ''i386'') @ ''-vars.fd'') = Some vars"
    and "readable w (applicationDirPath q @ ''/share/qemu/edk2-''
              @ (if arch m = ''aarch64'' then ''arm'' else ''i386'') @ ''-vars.fd'')"
    and "writable w (storage m @ ''/efi_nvram.fd'')"
    and "removable w (storage m @ ''/efi_nvram.fd'')"
  shows "resetEFINVRAM q m w
           = (True, m\<lparr>flash2 := storage m @ ''/efi_nvram.fd''\<rparr>,
              w\<lparr>files := AList.delete (storage m @ ''/efi_nvram.fd'') (files w)
                          @ [(storage m @ ''/efi_nvram.fd'', vars)],
                 messages := messages w @
                   (if QFile_exists w (storage m @ ''/efi_nvram.fd'')
                    then [(QtDebugMsg, ''Attempting to remove existing target ''
                                        @ storage m @ ''/efi_nvram.fd'')]
                    else [])\<rparr>)"
  using assms
    suffix_distinct(4) [of "storage m" "applicationDirPath q"
      "if arch m = ''aarch64'' then ''arm'' else ''i386''"]
  by (auto simp: resetEFINVRAM_def QFile_copy_def QFile_exists_def QFile_remove_def
      qDebug_def qWarning_def Let_def delete_conv' delete_absent)

lemma resetEFIFirmware_stale:
  assumes "QFile_exists w (storage m @ ''/efi.fd'')"
    and "\<not> removable w (storage m @ ''/efi.fd'')"
  shows "resetEFIFirmware q m w
           = (False, m,
              w\<lparr>messages := messages w @
                  [(QtDebugMsg, ''Attempting to remove existing target '' @ storage m @ ''/efi.fd''),
                   (QtWarningMsg, ''Failed to remove existing target '' @ storage m @ ''/efi.fd''),
                   (QtWarningMsg, ''Failed to copy '' @ applicationDirPath q @ ''/efi/'' @ arch m
                      @ ''/code.fd'' @ '' EFI firmware to target '' @ storage m @ ''/efi.fd'')]\<rparr>)"
  using assms
  by (auto simp: resetEFIFirmware_def QFile_copy_def QFile_exists_def QFile_remove_def
      qDebug_def qWarning_def Let_def split: option.splits)

lemma resetEFINVRAM_stale:
  assumes "QFile_exists w (storage m @ ''/efi_nvram.fd'')"
    and "\<not> removable w (storage m @ ''/efi_nvram.fd'')"
  shows "resetEFINVRAM q m w
           = (False, m,
              w\<lparr>messages := messages w @
                  [(QtDebugMsg, ''Attempting to remove existing target ''
                      @ storage m @ ''/efi_nvram.fd''),
                   (QtWarningMsg, ''Failed to remove existing target ''
                      @ storage m @ ''/efi_nvram.fd''),
                   (QtWarningMsg, ''Failed to copy '' @ applicationDirPath q @ ''/share/qemu/edk2-''
                      @ (if arch m = ''aarch64'' then ''arm'' else ''i386'') @ ''-vars.fd''
                      @ '' EFI NVRAM to target '' @ storage m @ ''/efi_nvram.fd'')]\<rparr>)"
  using assms
  by (auto simp: resetEFINVRAM_def QFile_copy_def QFile_exists_def QFile_remove_def
      qDebug_def qWarning_def Let_def split: option.splits)

lemma map_of_replace:
  "map_of (AList.delete t al @ [(t, b)]) k = (if k = t then Some b else map_of al k)"
  by (simp add: map_add_def delete_conv' split: option.splits)

lemma filter_delete_other:
  "t \<noteq> k \<Longrightarrow> filter (\<lambda>e. fst e = k) (AList.delete t al) = filter (\<lambda>e. fst e = k) al"
  by (induction al) auto


text \<open>
  Claim C5, as amended. The source assets exist and are readable and the two target files
  may be written. If stale targets may be removed, then running both provisioning steps
  and running them again succeeds all four times; afterwards there is exactly one firmware
  code file and one NVRAM file in the target directory, each with the bytes of its source;
  the second run only prints that it removes the existing targets. If a target exists and
  may not be removed, the step prints that, still calls the copy, and fails, since the copy
  does not overwrite an existing file; the files are left as they were.
\<close>

theorem firmware_twice:
  fixes q :: qt and m :: Machine and w :: world
    and efiFw efiVars efiFwTarget efiVarsTarget :: string
    and r1 r2 r3 r4 :: "bool \<times> Machine \<times> world"
  defines "efiFw \<equiv> applicationDirPath q @ ''/efi/'' @ arch m @ ''/code.fd''"
    and "efiVars \<equiv> applicationDirPath q @ ''/share/qemu/edk2-''
                      @ (if arch m = ''aarch64'' then ''arm'' else ''i386'') @ ''-vars.fd''"
    and "efiFwTarget \<equiv> storage m @ ''/efi.fd''"
    and "efiVarsTarget \<equiv> storage m @ ''/efi_nvram.fd''"
    and "r1 \<equiv> resetEFIFirmware q m w"
    and "r2 \<equiv> resetEFINVRAM q (fst (snd r1)) (snd (snd r1))"
    and "r3 \<equiv> resetEFIFirmware q (fst (snd r2)) (snd (snd r2))"
    and "r4 \<equiv> resetEFINVRAM q (fst (snd r3)) (snd (snd r3))"
  assumes "map_of (files w) efiFw = Some code" and "map_of (files w) efiVars = Some vars"
    and "readable w efiFw" and "readable w efiVars"
    and "writable w efiFwTarget" and "writable w efiVarsTarget"
  shows "(removable w efiFwTarget \<and> removable w efiVarsTarget \<longrightarrow>
            fst r1 \<and> fst r2 \<and> fst r3 \<and> fst r4
            \<and> map_of (files (snd (snd r4))) efiFwTarget = Some code
            \<and> map_of (files (snd (snd r4))) efiVarsTarget = Some vars
            \<and> length (filter (\<lambda>e. fst e = efiFwTarget) (files (snd (snd r4)))) = 1
            \<and> length (filter (\<lambda>e. fst e = efiVarsTarget) (files (snd (snd r4)))) = 1
            \<and> messages (snd (snd r4))
                = messages (snd (snd r2))
                  @ [(QtDebugMsg, ''Attempting to remove existing target '' @ efiFwTarget),
                     (QtDebugMsg, ''Attempting to remove existing target '' @ efiVarsTarget)])
       \<and> (QFile_exists w efiFwTarget \<and> \<not> removable w efiFwTarget \<longrightarrow>
            resetEFIFirmware q m w
              = (False, m,
                 w\<lparr>messages := messages w @
                     [(QtDebugMsg, ''Attempting to remove existing target '' @ efiFwTarget),
                      (QtWarningMsg, ''Failed to remove existing target '' @ efiFwTarget),
                      (QtWarningMsg, ''Failed to copy '' @ efiFw @ '' EFI firmware to target ''
                         @ efiFwTarget)]\<rparr>))
       \<and> (QFile_exists w efiVarsTarget \<and> \<not> removable w efiVarsTarget \<longrightarrow>
            resetEFINVRAM q m w
              = (False, m,
                 w\<lparr>messages := messages w @
                     [(QtDebugMsg, ''Attempting to remove existing target '' @ efiVarsTarget),
                      (QtWarningMsg, ''Failed to remove existing target '' @ efiVarsTarget),
                      (QtWarningMsg, ''Failed to copy '' @ efiVars @ '' EFI NVRAM to target ''
                         @ efiVarsTarget)]\<rparr>))"
proof (intro conjI impI)
  assume "QFile_exists w efiFwTarget \<and> \<not> removable w efiFwTarget"
  then show "resetEFIFirmware q m w
              = (False, m,
                 w\<lparr>messages := messages w @
                     [(QtDebugMsg, ''Attempting to remove existing target '' @ efiFwTarget),
                      (QtWarningMsg, ''Failed to remove existing target '' @ efiFwTarget),
                      (QtWarningMsg, ''Failed to copy '' @ efiFw @ '' EFI firmware to target ''
                         @ efiFwTarget)]\<rparr>)"
    using resetEFIFirmware_stale [of w m q] by (simp add: efiFwTarget_def efiFw_def)
next
  assume "QFile_exists w efiVarsTarget \<and> \<not> removable w efiVarsTarget"
  then show "resetEFINVRAM q m w
              = (False, m,
                 w\<lparr>messages := messages w @
                     [(QtDebugMsg, ''Attempting to remove existing target '' @ efiVarsTarget),
                      (QtWarningMsg, ''Failed to remove existing target '' @ efiVarsTarget),
                      (QtWarningMsg, ''Failed to copy '' @ efiVars @ '' EFI NVRAM to target ''
                         @ efiVarsTarget)]\<rparr>)"
    using resetEFINVRAM_stale [of w m q] by (simp add: efiVarsTarget_def efiVars_def)
next
  assume rm: "removable w efiFwTarget \<and> removable w efiVarsTarget"
  define m1 where "m1 = m\<lparr>flash1 := efiFwTarget\<rparr>"
  define w1 where "w1 = w\<lparr>files := AList.delete efiFwTarget (files w) @ [(efiFwTarget, code)],
      messages := messages w @
        (if QFile_exists w efiFwTarget
         then [(QtDebugMsg, ''Attempting to remove existing target '' @ efiFwTarget)] else [])\<rparr>"
  define m2 where "m2 = m1\<lparr>flash2 := efiVarsTarget\<rparr>"
  define w2 where "w2 = w1\<lparr>files := AList.delete efiVarsTarget (files w1) @ [(efiVarsTarget, vars)],
      messages := messages w1 @
        (if QFile_exists w1 efiVarsTarget
         then [(QtDebugMsg, ''Attempting to remove existing target '' @ efiVarsTarget)] else [])\<rparr>"
  define w3 where "w3 = w2\<lparr>files := AList.delete efiFwTarget (files w2) @ [(efiFwTarget, code)],
      messages := messages w2 @
        [(QtDebugMsg, ''Attempting to remove existing target '' @ efiFwTarget)]\<rparr>"
  define w4 where "w4 = w3\<lparr>files := AList.delete efiVarsTarget (files w3) @ [(efiVarsTarget, vars)],
      messages := messages w3 @
        [(QtDebugMsg, ''Attempting to remove existing target '' @ efiVarsTarget)]\<rparr>"
  have ne: "efiFw \<noteq> efiFwTarget" "efiFw \<noteq> efiVarsTarget" "efiVars \<noteq> efiFwTarget"
    "efiVars \<noteq> efiVarsTarget" "efiFwTarget \<noteq> efiVarsTarget"
    unfolding efiFw_def efiVars_def efiFwTarget_def efiVarsTarget_def
    by (rule suffix_distinct(1) [symmetric], rule suffix_distinct(3) [symmetric],
        rule suffix_distinct(2) [symmetric], rule suffix_distinct(4) [symmetric],
        rule suffix_distinct(5))
  have e1: "r1 = (True, m1, w1)"
    unfolding r1_def m1_def w1_def efiFwTarget_def
    using assms(9,11,13) rm
    by (intro resetEFIFirmware_success) (simp_all add: efiFw_def efiFwTarget_def)
  have sa: "storage m1 = storage m" "arch m1 = arch m" "storage m2 = storage m" "arch m2 = arch m"
    by (simp_all add: m1_def m2_def)
  have e2: "r2 = (True, m2, w2)"
    unfolding r2_def e1 fst_conv snd_conv m2_def w2_def efiVarsTarget_def sa [symmetric]
    using assms(10,12,14) rm ne
    by (intro resetEFINVRAM_success)
       (simp_all add: sa efiVars_def efiVarsTarget_def w1_def map_of_replace efiFwTarget_def)
  have x2: "QFile_exists w2 efiFwTarget"
    using ne by (simp add: QFile_exists_def w2_def w1_def map_of_replace)
  have e3: "r3 = (True, m2\<lparr>flash1 := efiFwTarget\<rparr>, w3)"
  proof -
    have "resetEFIFirmware q m2 w2
            = (True, m2\<lparr>flash1 := storage m2 @ ''/efi.fd''\<rparr>,
               w2\<lparr>files := AList.delete (storage m2 @ ''/efi.fd'') (files w2)
                          @ [(storage m2 @ ''/efi.fd'', code)],
                  messages := messages w2 @
                    (if QFile_exists w2 (storage m2 @ ''/efi.fd'')
                     then [(QtDebugMsg, ''Attempting to remove existing target ''
                                         @ storage m2 @ ''/efi.fd'')]
                     else [])\<rparr>)"
      using assms(9,11,13) rm ne
      by (intro resetEFIFirmware_success)
         (simp_all add: sa efiFw_def efiFwTarget_def efiVarsTarget_def w2_def w1_def
            map_of_replace)
    then show ?thesis
      using x2 by (simp add: r3_def e2 w3_def sa efiFwTarget_def)
  qed
  have x3: "QFile_exists w3 efiVarsTarget"
    using ne by (simp add: QFile_exists_def w3_def w2_def map_of_replace)
  have e4: "r4 = (True, m2\<lparr>flash1 := efiFwTarget, flash2 := efiVarsTarget\<rparr>, w4)"
  proof -
    let ?m3 = "m2\<lparr>flash1 := efiFwTarget\<rparr>"
    have s3: "storage ?m3 = storage m" "arch ?m3 = arch m" by (simp_all add: sa)
    have "resetEFINVRAM q ?m3 w3
            = (True, ?m3\<lparr>flash2 := storage ?m3 @ ''/efi_nvram.fd''\<rparr>,
               w3\<lparr>files := AList.delete (storage ?m3 @ ''/efi_nvram.fd'') (files w3)
                          @ [(storage ?m3 @ ''/efi_nvram.fd'', vars)],
                  messages := messages w3 @
                    (if QFile_exists w3 (storage ?m3 @ ''/efi_nvram.fd'')
                     then [(QtDebugMsg, ''Attempting to remove existing target ''
                                         @ storage ?m3 @ ''/efi_nvram.fd'')]
                     else [])\<rparr>)"
      using assms(10,12,14) rm ne
      by (intro resetEFINVRAM_success)
         (simp_all add: sa efiVars_def efiFwTarget_def efiVarsTarget_def w3_def w2_def w1_def
            map_of_replace)
    then show ?thesis
      using x3 by (simp add: r4_def e3 w4_def sa efiVarsTarget_def)
  qed
  show "fst r1" "fst r2" "fst r3" "fst r4" by (simp_all add: e1 e2 e3 e4)
  show "map_of (files (snd (snd r4))) efiFwTarget = Some code"
    using ne by (simp add: e4 w4_def w3_def map_add_def delete_conv')
  show "map_of (files (snd (snd r4))) efiVarsTarget = Some vars"
    by (simp add: e4 w4_def map_add_def delete_conv')
  show "length (filter (\<lambda>e. fst e = efiFwTarget) (files (snd (snd r4)))) = 1"
    using ne ne(5) [symmetric]
    by (simp add: e4 w4_def w3_def filter_delete_other filter_delete_same)
  show "length (filter (\<lambda>e. fst e = efiVarsTarget) (files (snd (snd r4)))) = 1"
    by (simp add: e4 w4_def filter_delete_same)
  show "messages (snd (snd r4))
          = messages (snd (snd r2))
            @ [(QtDebugMsg, ''Attempting to remove existing target '' @ efiFwTarget),
               (QtDebugMsg, ''Attempting to remove existing target '' @ efiVarsTarget)]"
    by (simp add: e4 e2 w4_def w3_def)
qed

lemma example_target_fields:
  "storage example_target = ''/data/vm2''" "arch example_target = ''x86_64''"
  by (simp_all add: example_target_def example_machine_def)

lemma example_sources:
  "map_of (files example_world) ''/app/efi/x86_64/code.fd'' = Some ''code-x86_64''"
  "map_of (files example_world) ''/app/share/qemu/edk2-i386-vars.fd'' = Some ''vars-i386''"
  "map_of (files example_world) ''/data/vm2/efi.fd'' = None"
  "map_of (files example_world) ''/data/vm2/efi_nvram.fd'' = None"
  by (simp_all add: example_world_def)

lemma example_first_firmware:
  "resetEFIFirmware example_qt example_target (example_world\<lparr>removable := (\<lambda>p. False)\<rparr>)
     = (True, example_target\<lparr>flash1 := ''/data/vm2/efi.fd''\<rparr>,
        example_world\<lparr>removable := (\<lambda>p. False),
          files := files example_world @ [(''/data/vm2/efi.fd'', ''code-x86_64'')]\<rparr>)"
  using example_sources
  by (simp add: resetEFIFirmware_def Let_def QFile_exists_def QFile_copy_def
      example_target_fields example_qt_def example_readable)
     (simp add: example_world_def)

text \<open>
  Claim C5 as first stated fails: the source asset exists and nothing may be removed. The
  first run copies the firmware code; the second run finds the target, cannot remove it,
  and its copy fails.
\<close>

theorem firmware_twice_counterexample:
  "map_of (files (example_world\<lparr>removable := (\<lambda>p. False)\<rparr>)) ''/app/efi/x86_64/code.fd''
     = Some ''code-x86_64''
   \<and> fst (resetEFIFirmware example_qt example_target
             (example_world\<lparr>removable := (\<lambda>p. False)\<rparr>))
   \<and> \<not> fst (resetEFIFirmware example_qt
               (fst (snd (resetEFIFirmware example_qt example_target
                            (example_world\<lparr>removable := (\<lambda>p. False)\<rparr>))))
               (snd (snd (resetEFIFirmware example_qt example_target
                            (example_world\<lparr>removable := (\<lambda>p. False)\<rparr>)))))"
proof -
  let ?w1 = "example_world\<lparr>removable := (\<lambda>p. False),
          files := files example_world @ [(''/data/vm2/efi.fd'', ''code-x86_64'')]\<rparr>"
  have x: "QFile_exists ?w1 (storage (example_target\<lparr>flash1 := ''/data/vm2/efi.fd''\<rparr>) @ ''/efi.fd'')"
    by (simp add: QFile_exists_def example_target_fields)
  have r: "\<not> removable ?w1 (storage (example_target\<lparr>flash1 := ''/data/vm2/efi.fd''\<rparr>) @ ''/efi.fd'')"
    by simp
  show ?thesis
    using example_sources(1) resetEFIFirmware_stale [OF x r, of example_qt]
    by (simp add: example_first_firmware)
qed

lemma example_stale_sources:
  "map_of (files example_stale_world) ''/app/efi/x86_64/code.fd'' = Some ''code-x86_64''"
  "map_of (files example_stale_world) ''/app/share/qemu/edk2-i386-vars.fd'' = Some ''vars-i386''"
  "map_of (files example_stale_world) ''/data/vm2/efi.fd'' = Some ''old code''"
  "map_of (files example_stale_world) ''/data/vm2/efi_nvram.fd'' = Some ''old vars''"
  by (simp_all add: example_stale_world_def example_world_def)

lemma example_permissions:
  "writable example_world p" "removable example_world p"
  "readable example_stale_world p" "writable example_stale_world p"
  "\<not> removable example_stale_world p"
  by (simp_all add: example_world_def example_stale_world_def)

theorem firmware_twice_witness:
  "map_of (files example_world) ''/app/efi/x86_64/code.fd'' = Some ''code-x86_64''
   \<and> map_of (files example_world) ''/app/share/qemu/edk2-i386-vars.fd'' = Some ''vars-i386''
   \<and> readable example_world ''/app/efi/x86_64/code.fd''
   \<and> readable example_world ''/app/share/qemu/edk2-i386-vars.fd''
   \<and> writable example_world ''/data/vm2/efi.fd''
   \<and> writable example_world ''/data/vm2/efi_nvram.fd''
   \<and> removable example_world ''/data/vm2/efi.fd''
   \<and> removable example_world ''/data/vm2/efi_nvram.fd''
   \<and> fst example_run1 \<and> fst example_run2 \<and> fst example_run3 \<and> fst example_run4
   \<and> map_of (files (snd (snd example_run4))) ''/data/vm2/efi.fd'' = Some ''code-x86_64''
   \<and> map_of (files (snd (snd example_run4))) ''/data/vm2/efi_nvram.fd'' = Some ''vars-i386''
   \<and> length (filter (\<lambda>e. fst e = ''/data/vm2/efi.fd'') (files (snd (snd example_run4)))) = 1
   \<and> length (filter (\<lambda>e. fst e = ''/data/vm2/efi_nvram.fd'')
                (files (snd (snd example_run4)))) = 1
   \<and> QFile_exists example_stale_world ''/data/vm2/efi.fd''
   \<and> \<not> removable example_stale_world ''/data/vm2/efi.fd''
   \<and> \<not> fst (resetEFIFirmware example_qt example_target example_stale_world)
   \<and> files (snd (snd (resetEFIFirmware example_qt example_target example_stale_world)))
       = files example_stale_world
   \<and> QFile_exists example_stale_world ''/data/vm2/efi_nvram.fd''
   \<and> \<not> removable example_stale_world ''/data/vm2/efi_nvram.fd''
   \<and> \<not> fst (resetEFINVRAM example_qt example_target example_stale_world)
   \<and> files (snd (snd (resetEFINVRAM example_qt example_target example_stale_world)))
       = files example_stale_world"
proof -
  have p: "applicationDirPath example_qt = ''/app''" by (simp add: example_qt_def)
  have a: "example_target \<lparr>storage := ''/data/vm2''\<rparr> = example_target"
    by (simp add: example_target_def)
  note A = firmware_twice [where q = example_qt and m = example_target and w = example_world
      and code = "''code-x86_64''" and vars = "''vars-i386''"]
  note B = firmware_twice [where q = example_qt and m = example_target
      and w = example_stale_world and code = "''code-x86_64''" and vars = "''vars-i386''"]
  have x: "QFile_exists example_stale_world ''/data/vm2/efi.fd''"
    "QFile_exists example_stale_world ''/data/vm2/efi_nvram.fd''"
    by (simp_all add: QFile_exists_def example_stale_sources)
  have A': "fst example_run1 \<and> fst example_run2 \<and> fst example_run3 \<and> fst example_run4
     \<and> map_of (files (snd (snd example_run4))) ''/data/vm2/efi.fd'' = Some ''code-x86_64''
     \<and> map_of (files (snd (snd example_run4))) ''/data/vm2/efi_nvram.fd'' = Some ''vars-i386''
     \<and> length (filter (\<lambda>e. fst e = ''/data/vm2/efi.fd'') (files (snd (snd example_run4)))) = 1
     \<and> length (filter (\<lambda>e. fst e = ''/data/vm2/efi_nvram.fd'')
                  (files (snd (snd example_run4)))) = 1"
    using A example_sources
    by (simp add: p example_target_fields example_readable example_permissions
        example_run1_def example_run2_def example_run3_def example_run4_def)
  have B': "\<not> fst (resetEFIFirmware example_qt example_target example_stale_world)
     \<and> files (snd (snd (resetEFIFirmware example_qt example_target example_stale_world)))
         = files example_stale_world
     \<and> \<not> fst (resetEFINVRAM example_qt example_target example_stale_world)
     \<and> files (snd (snd (resetEFINVRAM example_qt example_target example_stale_world)))
         = files example_stale_world"
    using B example_stale_sources x
    by (simp add: p example_target_fields example_permissions)
  show ?thesis
    using A' B' x example_sources
    by (simp add: example_readable example_permissions)
qed

section \<open>Creating a machine: what a failed step leaves behind\<close>

lemma copy_frame:
  "dirs (snd (QFile_copy s t w)) = dirs w"
  "writable (snd (QFile_copy s t w)) = writable w"
  "messages (snd (QFile_copy s t w)) = messages w"
  "p \<noteq> t \<Longrightarrow> map_of (files (snd (QFile_copy s t w))) p = map_of (files w) p"
  "fst (QFile_copy s t w) \<Longrightarrow> QFile_exists (snd (QFile_copy s t w)) t"
  by (auto simp: QFile_copy_def QFile_exists_def map_add_def split: option.splits if_splits)

lemma remove_frame:
  "dirs (snd (QFile_remove t w)) = dirs w"
  "writable (snd (QFile_remove t w)) = writable w"
  "p \<noteq> t \<Longrightarrow> map_of (files (snd (QFile_remove t w))) p = map_of (files w) p"
  by (simp_all add: QFile_remove_def delete_conv')

lemma log_frame:
  "dirs (qDebug s w) = dirs w" "dirs (qWarning s w) = dirs w"
  "files (qDebug s w) = files w" "files (qWarning s w) = files w"
  "writable (qDebug s w) = writable w" "writable (qWarning s w) = writable w"
  "QFile_exists (qDebug s w) p = QFile_exists w p"
  "QFile_exists (qWarning s w) p = QFile_exists w p"
  by (simp_all add: qDebug_def qWarning_def QFile_exists_def)

lemmas frame_simps = copy_frame remove_frame log_frame

lemma resetEFIFirmware_frame:
  "dirs (snd (snd (resetEFIFirmware q m w))) = dirs w"
  "writable (snd (snd (resetEFIFirmware q m w))) = writable w"
  "storage (fst (snd (resetEFIFirmware q m w))) = storage m"
  "p \<noteq> storage m @ ''/efi.fd'' \<Longrightarrow>
     map_of (files (snd (snd (resetEFIFirmware q m w)))) p = map_of (files w) p"
  "fst (resetEFIFirmware q m w) \<Longrightarrow>
     QFile_exists (snd (snd (resetEFIFirmware q m w))) (storage m @ ''/efi.fd'')"
  unfolding resetEFIFirmware_def Let_def
  by (simp_all add: frame_simps split: if_splits)


lemma resetEFINVRAM_frame:
  "dirs (snd (snd (resetEFINVRAM q m w))) = dirs w"
  "writable (snd (snd (resetEFINVRAM q m w))) = writable w"
  "storage (fst (snd (resetEFINVRAM q m w))) = storage m"
  "p \<noteq> storage m @ ''/efi_nvram.fd'' \<Longrightarrow>
     map_of (files (snd (snd (resetEFINVRAM q m w)))) p = map_of (files w) p"
  "fst (resetEFINVRAM q m w) \<Longrightarrow>
     QFile_exists (snd (snd (resetEFINVRAM q m w))) (storage m @ ''/efi_nvram.fd'')"
  unfolding resetEFINVRAM_def Let_def
  by (simp_all add: frame_simps split: if_splits)

lemma createVM_disk_frame:
  "storage (fst (snd (createVM_disk q m w))) = writableLocation q @ ''/'' @ createUuid q"
  "set (dirs w) \<subseteq> set (dirs (snd (snd (createVM_disk q m w))))"
  "QDir_exists w (writableLocation q @ ''/'' @ createUuid q)
     \<or> writable w (writableLocation q @ ''/'' @ createUuid q) \<Longrightarrow>
   QDir_exists (snd (snd (createVM_disk q m w))) (writableLocation q @ ''/'' @ createUuid q)"
  "p \<noteq> (writableLocation q @ ''/'' @ createUuid q) @ ''/hdd.qcow2'' \<Longrightarrow>
     map_of (files (snd (snd (createVM_disk q m w)))) p = map_of (files w) p"
  unfolding createVM_disk_def Let_def
  by (auto simp: QDir_exists_def QDir_mkpath_def qDebug_def qWarning_def update_conv'
      split: option.splits)

text \<open>
  Claim C4. A machine is created and the disk step, the firmware step or the NVRAM step
  fails. Then \<open>createVM\<close> returns false; the metadata file \<open>info.json\<close> of the new
  directory is as it was before the call (it is written only after the three steps have
  succeeded); and nothing is undone: the file system is left exactly as the failing step
  left it, no directory is removed, the new directory is there if it could be made, the
  disk image is as the disk step left it, and the firmware code copied by a successful
  firmware step is still there.
\<close>

theorem createVM_failure:
  fixes q :: qt and m :: Machine and w :: world
    and vmDirPath :: string
    and disk fw nv :: "bool \<times> Machine \<times> world"
    and r :: "bool \<times> Machine option \<times> world"
  defines "vmDirPath \<equiv> writableLocation q @ ''/'' @ createUuid q"
    and "disk \<equiv> createVM_disk q m w"
    and "fw \<equiv> resetEFIFirmware q (fst (snd disk)) (snd (snd disk))"
    and "nv \<equiv> resetEFINVRAM q (fst (snd fw)) (snd (snd fw))"
    and "r \<equiv> createVM q (Some m) w"
  assumes failed: "\<not> fst disk \<or> \<not> fst fw \<or> \<not> fst nv"
  shows "\<not> fst r
     \<and> map_of (files (snd (snd r))) (vmDirPath @ ''/info.json'')
         = map_of (files w) (vmDirPath @ ''/info.json'')
     \<and> snd (snd r) = (if \<not> fst disk then snd (snd disk)
                       else if \<not> fst fw then snd (snd fw) else snd (snd nv))
     \<and> set (dirs w) \<subseteq> set (dirs (snd (snd r)))
     \<and> (QDir_exists w vmDirPath \<or> writable w vmDirPath \<longrightarrow> QDir_exists (snd (snd r)) vmDirPath)
     \<and> (fst disk \<longrightarrow>
          map_of (files (snd (snd r))) (vmDirPath @ ''/hdd.qcow2'')
            = map_of (files (snd (snd disk))) (vmDirPath @ ''/hdd.qcow2''))
     \<and> (fst disk \<and> fst fw \<longrightarrow> QFile_exists (snd (snd r)) (vmDirPath @ ''/efi.fd''))"
proof -
  have sd: "storage (fst (snd disk)) = vmDirPath"
    by (simp add: disk_def vmDirPath_def createVM_disk_frame(1))
  have sf: "storage (fst (snd fw)) = vmDirPath"
    by (simp add: fw_def resetEFIFirmware_frame(3) sd)
  have final: "snd (snd r) = (if \<not> fst disk then snd (snd disk)
                       else if \<not> fst fw then snd (snd fw) else snd (snd nv))"
    and res: "\<not> fst r"
    using failed
    by (auto simp: r_def createVM_def Let_def disk_def fw_def nv_def)
  have dd: "dirs (snd (snd fw)) = dirs (snd (snd disk))" "dirs (snd (snd nv)) = dirs (snd (snd disk))"
    by (simp_all add: fw_def nv_def resetEFIFirmware_frame(1) resetEFINVRAM_frame(1))
  have dirs_final: "dirs (snd (snd r)) = dirs (snd (snd disk))"
    by (simp add: final dd)
  have json_disk: "map_of (files (snd (snd disk))) (vmDirPath @ ''/info.json'')
                     = map_of (files w) (vmDirPath @ ''/info.json'')"
    unfolding disk_def vmDirPath_def by (rule createVM_disk_frame(4)) simp
  have json_fw: "map_of (files (snd (snd fw))) (vmDirPath @ ''/info.json'')
                   = map_of (files (snd (snd disk))) (vmDirPath @ ''/info.json'')"
    unfolding fw_def by (rule resetEFIFirmware_frame(4)) (simp add: sd)
  have json_nv: "map_of (files (snd (snd nv))) (vmDirPath @ ''/info.json'')
                   = map_of (files (snd (snd fw))) (vmDirPath @ ''/info.json'')"
    unfolding nv_def by (rule resetEFINVRAM_frame(4)) (simp add: sf)
  have hdd_fw: "map_of (files (snd (snd fw))) (vmDirPath @ ''/hdd.qcow2'')
                   = map_of (files (snd (snd disk))) (vmDirPath @ ''/hdd.qcow2'')"
    unfolding fw_def by (rule resetEFIFirmware_frame(4)) (simp add: sd)
  have hdd_nv: "map_of (files (snd (snd nv))) (vmDirPath @ ''/hdd.qcow2'')
                   = map_of (files (snd (snd fw))) (vmDirPath @ ''/hdd.qcow2'')"
    unfolding nv_def by (rule resetEFINVRAM_frame(4)) (simp add: sf)
  have efi_nv: "map_of (files (snd (snd nv))) (vmDirPath @ ''/efi.fd'')
                   = map_of (files (snd (snd fw))) (vmDirPath @ ''/efi.fd'')"
    unfolding nv_def by (rule resetEFINVRAM_frame(4)) (simp add: sf)
  have efi_fw: "fst fw \<Longrightarrow> QFile_exists (snd (snd fw)) (vmDirPath @ ''/efi.fd'')"
    using resetEFIFirmware_frame(5) [of q "fst (snd disk)" "snd (snd disk)"]
    by (simp add: fw_def sd)
  have c2: "map_of (files (snd (snd r))) (vmDirPath @ ''/info.json'')
         = map_of (files w) (vmDirPath @ ''/info.json'')"
    by (simp add: final json_disk json_fw json_nv)
  have c4: "set (dirs w) \<subseteq> set (dirs (snd (snd r)))"
    unfolding dirs_final disk_def by (rule createVM_disk_frame(2))
  have c5: "QDir_exists w vmDirPath \<or> writable w vmDirPath \<longrightarrow> QDir_exists (snd (snd r)) vmDirPath"
    using createVM_disk_frame(3) [of w q m]
    by (simp add: QDir_exists_def dirs_final disk_def vmDirPath_def)
  have c6: "fst disk \<longrightarrow>
          map_of (files (snd (snd r))) (vmDirPath @ ''/hdd.qcow2'')
            = map_of (files (snd (snd disk))) (vmDirPath @ ''/hdd.qcow2'')"
    by (simp add: final hdd_fw hdd_nv)
  have c7: "fst disk \<and> fst fw \<longrightarrow> QFile_exists (snd (snd r)) (vmDirPath @ ''/efi.fd'')"
    using efi_fw by (simp add: final QFile_exists_def efi_nv)
  show ?thesis
    using res c2 final c4 c5 c6 c7 by blast
qed


lemma readable_frame:
  "readable (snd (QFile_remove t w)) = readable w"
  "readable (qDebug s w) = readable w" "readable (qWarning s w) = readable w"
  by (simp_all add: QFile_remove_def qDebug_def qWarning_def)

lemma copy_fails:
  "map_of (files w) s = None \<Longrightarrow> \<not> fst (QFile_copy s t w)"
  "\<not> readable w s \<Longrightarrow> \<not> fst (QFile_copy s t w)"
  by (simp_all add: QFile_copy_def split: option.splits)

lemma resetEFIFirmware_fst:
  "fst (resetEFIFirmware q m w)
     = fst (QFile_copy (applicationDirPath q @ ''/efi/'' @ arch m @ ''/code.fd'')
              (storage m @ ''/efi.fd'')
              (if QFile_exists w (storage m @ ''/efi.fd'')
               then (let w' = qDebug (''Attempting to remove existing target ''
                                       @ storage m @ ''/efi.fd'') w;
                         removed = QFile_remove (storage m @ ''/efi.fd'') w'
                     in if \<not> fst removed
                        then qWarning (''Failed to remove existing target ''
                                        @ storage m @ ''/efi.fd'') (snd removed)
                        else snd removed)
               else w))"
  by (simp add: resetEFIFirmware_def Let_def)

lemma resetEFINVRAM_fst:
  "fst (resetEFINVRAM q m w)
     = fst (QFile_copy (applicationDirPath q @ ''/share/qemu/edk2-''
                          @ (if arch m = ''aarch64'' then ''arm'' else ''i386'') @ ''-vars.fd'')
              (storage m @ ''/efi_nvram.fd'')
              (if QFile_exists w (storage m @ ''/efi_nvram.fd'')
               then (let w' = qDebug (''Attempting to remove existing target ''
                                       @ storage m @ ''/efi_nvram.fd'') w;
                         removed = QFile_remove (storage m @ ''/efi_nvram.fd'') w'
                     in if \<not> fst removed
                        then qWarning (''Failed to remove existing target ''
                                        @ storage m @ ''/efi_nvram.fd'') (snd removed)
                        else snd removed)
               else w))"
  by (simp add: resetEFINVRAM_def Let_def)

lemma resetEFIFirmware_missing:
  assumes "map_of (files w) (applicationDirPath q @ ''/efi/'' @ arch m @ ''/code.fd'') = None"
  shows "\<not> fst (resetEFIFirmware q m w)"
  unfolding resetEFIFirmware_fst
  apply (rule copy_fails(1))
  using assms suffix_distinct(1) [of "storage m" "applicationDirPath q" "arch m"]
  apply (simp add: Let_def log_frame remove_frame)
  done

lemma resetEFINVRAM_unreadable:
  assumes "\<not> readable w (applicationDirPath q @ ''/share/qemu/edk2-''
              @ (if arch m = ''aarch64'' then ''arm'' else ''i386'') @ ''-vars.fd'')"
  shows "\<not> fst (resetEFINVRAM q m w)"
  unfolding resetEFINVRAM_fst
  apply (rule copy_fails(2))
  using assms
  apply (simp add: Let_def readable_frame)
  done

lemma resetEFIFirmware_permissions:
  "readable (snd (snd (resetEFIFirmware q m w))) = readable w"
  "arch (fst (snd (resetEFIFirmware q m w))) = arch m"
  unfolding resetEFIFirmware_def Let_def
  by (simp_all add: readable_frame QFile_copy_def split: option.splits)

lemma createVM_disk_permissions:
  "readable (snd (snd (createVM_disk q m w))) = readable w"
  "writable (snd (snd (createVM_disk q m w))) = writable w"
  "removable (snd (snd (createVM_disk q m w))) = removable w"
  "arch (fst (snd (createVM_disk q m w))) = arch m"
  unfolding createVM_disk_def Let_def
  by (simp_all add: QDir_mkpath_def qDebug_def qWarning_def split: option.splits)

lemma example_paths:
  "writableLocation example_qt = ''/data''" "createUuid example_qt = ''{7f1c}''"
  "applicationDirPath example_qt = ''/app''"
  "writableLocation example_failing_qt = ''/data''" "createUuid example_failing_qt = ''{7f1c}''"
  by (simp_all add: example_qt_def example_failing_qt_def)

lemma example_disk:
  "fst (createVM_disk example_qt m w)"
  "map_of (files (snd (snd (createVM_disk example_qt m w)))) ''/data/{7f1c}/hdd.qcow2''
     = Some ''QFI''"
  "\<not> fst (createVM_disk example_failing_qt m w)"
  by (simp_all add: createVM_disk_def Let_def example_qt_def example_failing_qt_def
      QDir_mkpath_def qDebug_def update_conv' split: if_splits)

lemma example_fresh:
  "map_of (files example_world) ''/data/{7f1c}/info.json'' = None"
  "map_of (files example_world) ''/app/efi/aarch64/code.fd'' = None"
  "map_of (files example_unreadable_world) ''/data/{7f1c}/info.json'' = None"
  "map_of (files example_unreadable_world) ''/app/efi/x86_64/code.fd'' = Some ''code-x86_64''"
  "writable example_unreadable_world p" "removable example_unreadable_world p"
  "readable example_unreadable_world ''/app/efi/x86_64/code.fd''"
  "\<not> readable example_unreadable_world ''/app/share/qemu/edk2-i386-vars.fd''"
  by (simp_all add: example_world_def example_unreadable_world_def)

lemma example_fw_missing:
  "\<not> fst (resetEFIFirmware example_qt
            (fst (snd (createVM_disk example_qt example_draft example_world)))
            (snd (snd (createVM_disk example_qt example_draft example_world))))"
proof (rule resetEFIFirmware_missing)
  have a: "arch example_draft = ''aarch64''" by (simp add: example_draft_def)
  show "map_of (files (snd (snd (createVM_disk example_qt example_draft example_world))))
          (applicationDirPath example_qt @ ''/efi/''
             @ arch (fst (snd (createVM_disk example_qt example_draft example_world)))
             @ ''/code.fd'') = None"
    using createVM_disk_frame(4) [of "''/app/efi/aarch64/code.fd''" example_qt example_draft
        example_world]
    by (simp add: createVM_disk_permissions a example_paths example_fresh)
qed

lemma example_fw_ok:
  "fst (resetEFIFirmware example_qt
          (fst (snd (createVM_disk example_qt example_machine example_unreadable_world)))
          (snd (snd (createVM_disk example_qt example_machine example_unreadable_world))))"
proof -
  let ?d = "createVM_disk example_qt example_machine example_unreadable_world"
  have a: "arch example_machine = ''x86_64''" by (simp add: example_machine_def)
  have s: "map_of (files (snd (snd ?d))) ''/app/efi/x86_64/code.fd'' = Some ''code-x86_64''"
    using createVM_disk_frame(4) [of "''/app/efi/x86_64/code.fd''" example_qt example_machine
        example_unreadable_world]
    by (simp add: example_paths example_fresh)
  have "resetEFIFirmware example_qt (fst (snd ?d)) (snd (snd ?d))
          = (True, (fst (snd ?d))\<lparr>flash1 := storage (fst (snd ?d)) @ ''/efi.fd''\<rparr>,
             (snd (snd ?d))\<lparr>files := AList.delete (storage (fst (snd ?d)) @ ''/efi.fd'')
                                       (files (snd (snd ?d)))
                          @ [(storage (fst (snd ?d)) @ ''/efi.fd'', ''code-x86_64'')],
                 messages := messages (snd (snd ?d)) @
                   (if QFile_exists (snd (snd ?d)) (storage (fst (snd ?d)) @ ''/efi.fd'')
                    then [(QtDebugMsg, ''Attempting to remove existing target ''
                                        @ storage (fst (snd ?d)) @ ''/efi.fd'')]
                    else [])\<rparr>)"
    using s
    by (intro resetEFIFirmware_success)
       (simp_all add: createVM_disk_permissions a example_paths example_fresh)
  then show ?thesis by simp
qed

lemma example_nv_unreadable:
  "\<not> fst (resetEFINVRAM example_qt
            (fst (snd (resetEFIFirmware example_qt
               (fst (snd (createVM_disk example_qt example_machine example_unreadable_world)))
               (snd (snd (createVM_disk example_qt example_machine example_unreadable_world))))))
            (snd (snd (resetEFIFirmware example_qt
               (fst (snd (createVM_disk example_qt example_machine example_unreadable_world)))
               (snd (snd (createVM_disk example_qt example_machine
                            example_unreadable_world)))))))"
  by (rule resetEFINVRAM_unreadable)
     (simp add: resetEFIFirmware_permissions createVM_disk_permissions example_paths
        example_fresh example_machine_def)


theorem createVM_failure_witness:
  "\<not> fst (resetEFIFirmware example_qt
            (fst (snd (createVM_disk example_qt example_draft example_world)))
            (snd (snd (createVM_disk example_qt example_draft example_world))))
   \<and> \<not> fst (createVM example_qt (Some example_draft) example_world)
   \<and> map_of (files (snd (snd (createVM example_qt (Some example_draft) example_world))))
         ''/data/{7f1c}/info.json'' = None
   \<and> QDir_exists (snd (snd (createVM example_qt (Some example_draft) example_world)))
         ''/data/{7f1c}''
   \<and> map_of (files (snd (snd (createVM example_qt (Some example_draft) example_world))))
         ''/data/{7f1c}/hdd.qcow2'' = Some ''QFI''
   \<and> fst (createVM_disk example_qt example_machine example_unreadable_world)
   \<and> fst (resetEFIFirmware example_qt
            (fst (snd (createVM_disk example_qt example_machine example_unreadable_world)))
            (snd (snd (createVM_disk example_qt example_machine example_unreadable_world))))
   \<and> \<not> fst (createVM example_qt (Some example_machine) example_unreadable_world)
   \<and> map_of (files (snd (snd (createVM example_qt (Some example_machine)
                                  example_unreadable_world))))
         ''/data/{7f1c}/info.json'' = None
   \<and> QFile_exists (snd (snd (createVM example_qt (Some example_machine)
                                 example_unreadable_world)))
         ''/data/{7f1c}/efi.fd''
   \<and> map_of (files (snd (snd (createVM example_qt (Some example_machine)
                                  example_unreadable_world))))
         ''/data/{7f1c}/hdd.qcow2'' = Some ''QFI''
   \<and> \<not> fst (createVM_disk example_failing_qt example_draft example_world)
   \<and> \<not> fst (createVM example_failing_qt (Some example_draft) example_world)
   \<and> map_of (files (snd (snd (createVM example_failing_qt (Some example_draft)
                                  example_world))))
         ''/data/{7f1c}/info.json'' = None
   \<and> QDir_exists (snd (snd (createVM example_failing_qt (Some example_draft) example_world)))
         ''/data/{7f1c}''"
proof -
  note A = createVM_failure [where q = example_qt and m = example_draft and w = example_world,
      OF disjI2 [OF disjI1 [OF example_fw_missing]]]
  note B = createVM_failure [where q = example_qt and m = example_machine
      and w = example_unreadable_world, OF disjI2 [OF disjI2 [OF example_nv_unreadable]]]
  note C = createVM_failure [where q = example_failing_qt and m = example_draft
      and w = example_world, OF disjI1 [OF example_disk(3)]]
  have A': "\<not> fst (createVM example_qt (Some example_draft) example_world)
     \<and> map_of (files (snd (snd (createVM example_qt (Some example_draft) example_world))))
           ''/data/{7f1c}/info.json'' = None
     \<and> QDir_exists (snd (snd (createVM example_qt (Some example_draft) example_world)))
           ''/data/{7f1c}''
     \<and> map_of (files (snd (snd (createVM example_qt (Some example_draft) example_world))))
           ''/data/{7f1c}/hdd.qcow2'' = Some ''QFI''"
    using A [THEN conjunct1] A [THEN conjunct2, THEN conjunct1]
      A [THEN conjunct2, THEN conjunct2, THEN conjunct2]
      example_disk(1,2) [of example_draft example_world]
    by (simp add: example_paths example_fresh example_permissions)
  have B': "\<not> fst (createVM example_qt (Some example_machine) example_unreadable_world)
     \<and> map_of (files (snd (snd (createVM example_qt (Some example_machine)
                                    example_unreadable_world))))
           ''/data/{7f1c}/info.json'' = None
     \<and> QFile_exists (snd (snd (createVM example_qt (Some example_machine)
                                   example_unreadable_world)))
           ''/data/{7f1c}/efi.fd''
     \<and> map_of (files (snd (snd (createVM example_qt (Some example_machine)
                                    example_unreadable_world))))
           ''/data/{7f1c}/hdd.qcow2'' = Some ''QFI''"
    using B [THEN conjunct1] B [THEN conjunct2, THEN conjunct1]
      B [THEN conjunct2, THEN conjunct2, THEN conjunct2] example_fw_ok
      example_disk(1,2) [of example_machine example_unreadable_world]
    by (simp add: example_paths example_fresh)
  have C': "\<not> fst (createVM example_failing_qt (Some example_draft) example_world)
     \<and> map_of (files (snd (snd (createVM example_failing_qt (Some example_draft)
                                    example_world))))
           ''/data/{7f1c}/info.json'' = None
     \<and> QDir_exists (snd (snd (createVM example_failing_qt (Some example_draft) example_world)))
           ''/data/{7f1c}''"
    using C [THEN conjunct1] C [THEN conjunct2, THEN conjunct1]
      C [THEN conjunct2, THEN conjunct2, THEN conjunct2]
    by (simp add: example_paths example_fresh example_permissions)
  show ?thesis
    using A' B' C' example_fw_missing example_fw_ok
      example_disk(1) [of example_machine example_unreadable_world]
      example_disk(3) [of example_draft example_world]
    by blast
qed

end
